theory Spec2Isabelle
  imports Complex_Main "HOL-Library.AList" "HOL-Library.Word"
begin

section \<open>Data model (models/database.py, Database.init\_db)\<close>

text \<open>
  The six tables of \<^verbatim>\<open>bookstore.db\<close> are lists of rows, in insertion order. The columns
  \<^verbatim>\<open>created_at\<close> and \<^verbatim>\<open>updated_at\<close>, and the surrogate \<^verbatim>\<open>id\<close> of \<^verbatim>\<open>orders\<close> and
  \<^verbatim>\<open>order_items\<close>, are read by none of the functions below and are left out.

  Columns of SQL type \<^verbatim>\<open>REAL\<close> hold Python floats. Their type is the parameter \<open>'p\<close>; the
  builtins the code applies to them are passed in as a record \<open>builtins\<close>, so that nothing
  proved below depends on how floats round.
\<close>

record 'p book =
  b_id :: int
  b_title :: string
  b_author :: string
  b_description :: string
  b_price :: 'p
  b_stock :: int
  b_genre :: string
  b_image_filename :: "string option"
  b_stock_threshold :: int

record 'p order =
  o_order_id :: string
  o_customer_name :: string
  o_customer_email :: string
  o_customer_phone :: string
  o_shipping_address :: string
  o_total_amount :: 'p
  o_status :: string
  o_payment_method :: string

record 'p order_item =
  oi_order_id :: string
  oi_book_id :: int
  oi_quantity :: int
  oi_price :: 'p

record notification =
  n_id :: int
  n_type :: string
  n_title :: string
  n_message :: string
  n_is_read :: bool

text \<open>
  \<open>books_seq\<close> and \<open>notifications_seq\<close> are the \<^verbatim>\<open>sqlite_sequence\<close> entries behind
  \<^verbatim>\<open>INTEGER PRIMARY KEY AUTOINCREMENT\<close>: the largest id ever handed out.
\<close>

record 'p database =
  books :: "'p book list"
  books_seq :: int
  orders :: "'p order list"
  order_items :: "'p order_item list"
  notifications :: "notification list"
  notifications_seq :: int

section \<open>Python builtins\<close>

text \<open>
  What the code takes from the language: \<^verbatim>\<open>float(s)\<close> and \<^verbatim>\<open>int(s)\<close> (\<open>None\<close> is
  \<^verbatim>\<open>ValueError\<close>), the conversion of an int operand in \<^verbatim>\<open>float * int\<close> and \<^verbatim>\<open>0 + float\<close>, float
  addition and multiplication, the test \<^verbatim>\<open>x < 0\<close>, the format \<^verbatim>\<open>{x:.2f}\<close>, whether a
  float is NaN (SQLite stores NaN as \<^verbatim>\<open>NULL\<close>, which a \<^verbatim>\<open>NOT NULL\<close> column refuses), and
  the text of an int in an f-string.
\<close>

record 'p builtins =
  py_float :: "string \<Rightarrow> 'p option"
  py_int :: "string \<Rightarrow> int option"
  float_of_int :: "int \<Rightarrow> 'p"
  float_add :: "'p \<Rightarrow> 'p \<Rightarrow> 'p"
  float_mul :: "'p \<Rightarrow> 'p \<Rightarrow> 'p"
  float_lt_zero :: "'p \<Rightarrow> bool"
  float_isnan :: "'p \<Rightarrow> bool"
  float_format2 :: "'p \<Rightarrow> string"
  py_str :: "int \<Rightarrow> string"

text \<open>
  \<^verbatim>\<open>str.strip()\<close>, \<^verbatim>\<open>str.lower()\<close> and \<^verbatim>\<open>str.upper()\<close> on strings of code points below 256.
  \<open>str_upper\<close> is applied to hexadecimal text only, where it acts on \<^verbatim>\<open>a\<close> to \<^verbatim>\<open>z\<close>.
\<close>

definition is_space :: "char \<Rightarrow> bool" where
  "is_space c = (of_char c \<in> {9::nat, 10, 11, 12, 13, 28, 29, 30, 31, 32, 133, 160})"

definition str_strip :: "string \<Rightarrow> string" where
  "str_strip s = rev (dropWhile is_space (rev (dropWhile is_space s)))"

definition lower_char :: "char \<Rightarrow> char" where
  "lower_char c =
     (let n = of_char c :: nat
      in if (65 \<le> n \<and> n \<le> 90) \<or> (192 \<le> n \<and> n \<le> 222 \<and> n \<noteq> 215)
         then char_of (n + 32) else c)"

definition str_lower :: "string \<Rightarrow> string" where
  "str_lower s = map lower_char s"

definition upper_char :: "char \<Rightarrow> char" where
  "upper_char c =
     (let n = of_char c :: nat
      in if 97 \<le> n \<and> n \<le> 122 then char_of (n - 32) else c)"

definition str_upper :: "string \<Rightarrow> string" where
  "str_upper s = map upper_char s"

subsection \<open>uuid.uuid4 and its text\<close>

text \<open>
  \<^verbatim>\<open>uuid.uuid4()\<close> is \<^verbatim>\<open>UUID(bytes=os.urandom(16), version=4)\<close>: the 16 random bytes \<open>r\<close>,
  most significant first, with the variant written into the top two bits of byte 8 and
  the version into the top four bits of byte 6. \<^verbatim>\<open>str\<close> prints \<^verbatim>\<open>'%032x' % int\<close>, two
  digits a byte, in groups of 8-4-4-4-12 digits.
\<close>

definition uuid4 :: "8 word list \<Rightarrow> 8 word list" where
  "uuid4 r = (r[8 := or (and (r ! 8) 0x3f) 0x80])[6 := or (and (r ! 6) 0x0f) 0x40]"

definition hex_digit :: "nat \<Rightarrow> char" where
  "hex_digit n = ''0123456789abcdef'' ! n"

definition hex_byte :: "8 word \<Rightarrow> string" where
  "hex_byte b = [hex_digit (unat b div 16), hex_digit (unat b mod 16)]"

definition uuid_hex :: "8 word list \<Rightarrow> string" where
  "uuid_hex bs = concat (map hex_byte bs)"

definition uuid_str :: "8 word list \<Rightarrow> string" where
  "uuid_str bs =
     (let h = uuid_hex bs
      in take 8 h @ ''-'' @ take 4 (drop 8 h) @ ''-'' @ take 4 (drop 12 h) @ ''-'' @
         take 4 (drop 16 h) @ ''-'' @ drop 20 h)"

text \<open>\<^verbatim>\<open>order_id = str(uuid.uuid4())[:8].upper()\<close>, from the random bytes \<open>r\<close>.\<close>

definition new_order_id :: "8 word list \<Rightarrow> string" where
  "new_order_id r = str_upper (take 8 (uuid_str (uuid4 r)))"

section \<open>SQLite integers and Python exceptions\<close>

text \<open>
  Python ints have no bound; an SQLite \<^verbatim>\<open>INTEGER\<close> has 64 bits, signed. When a statement is
  given an int outside that range as a parameter, the \<^verbatim>\<open>sqlite3\<close> module raises
  \<^verbatim>\<open>OverflowError\<close> before the statement runs.
\<close>

definition sqlite_int :: "int \<Rightarrow> bool" where
  "sqlite_int i = (- (2 ^ 63) \<le> i \<and> i < 2 ^ 63)"

text \<open>
  An unhandled Python exception ends the request with HTTP 500; the connection is dropped
  without \<^verbatim>\<open>commit\<close>, so nothing the request wrote is kept.
\<close>

datatype exn = TypeError | RuntimeError | IntegrityError | ValueError | OverflowError

section \<open>Notifications (models/database.py)\<close>

text \<open>
  \<^verbatim>\<open>INSERT INTO notifications (type, title, message) VALUES (?, ?, ?)\<close>: the id is the next
  of the sequence, \<^verbatim>\<open>is_read\<close> takes its default \<^verbatim>\<open>FALSE\<close>.
\<close>

definition add_notification ::
  "string \<Rightarrow> string \<Rightarrow> string \<Rightarrow> 'p database \<Rightarrow> 'p database" where
  "add_notification notification_type title message d =
     d\<lparr>notifications := notifications d @
          [\<lparr>n_id = notifications_seq d + 1, n_type = notification_type, n_title = title,
            n_message = message, n_is_read = False\<rparr>],
       notifications_seq := notifications_seq d + 1\<rparr>"

text \<open>\<^verbatim>\<open>SELECT COUNT(*) FROM notifications WHERE is_read = FALSE\<close>\<close>

definition get_unread_notifications_count :: "'p database \<Rightarrow> nat" where
  "get_unread_notifications_count d =
     length (filter (\<lambda>n. \<not> n_is_read n) (notifications d))"

text \<open>
  What \<^verbatim>\<open>UPDATE notifications SET is_read = TRUE WHERE id = ?\<close> does to the table once its
  parameter is bound.
\<close>

definition update_is_read :: "int \<Rightarrow> 'p database \<Rightarrow> 'p database" where
  "update_is_read notification_id d =
     d\<lparr>notifications :=
          map (\<lambda>n. if n_id n = notification_id then n\<lparr>n_is_read := True\<rparr> else n)
            (notifications d)\<rparr>"

text \<open>
  \<^verbatim>\<open>Database.mark_notification_read\<close>: the update with \<^verbatim>\<open>(notification_id,)\<close> as its
  parameter, then commit. It raises when the id cannot be bound.
\<close>

definition mark_notification_read :: "int \<Rightarrow> 'p database \<Rightarrow> exn + 'p database" where
  "mark_notification_read notification_id d =
     (if sqlite_int notification_id then Inr (update_is_read notification_id d)
      else Inl OverflowError)"

section \<open>Sessions, flashed messages and responses\<close>

text \<open>
  The session holds the cart, a dict from book id to quantity, kept as an association list
  in insertion order (absent when \<^verbatim>\<open>'cart' not in session\<close>), the logged-in admin and the
  flashed messages. A cart key is the \<^verbatim>\<open>book_id\<close> text of the form. SQLite compares it
  with the integer column \<^verbatim>\<open>books.id\<close> by its numeric value, and the model takes the key
  to be that integer. Two key texts that denote the same number, such as \<^verbatim>\<open>1\<close> and
  \<^verbatim>\<open>01\<close>, are two lines of the dict on one book; the model has them as two pairs with
  one key, and follows the code on carts with at most one line per book.
\<close>

datatype flash =
    Cart_empty
  | Insufficient_stock string int
  | Order_placed string
  | Quantity_adjusted string
  | Out_of_stock_removed string
  | Please_log_in
  | Invalid_price
  | Price_not_positive
  | Price_not_number
  | Stock_negative
  | Stock_not_integer
  | Threshold_negative
  | Threshold_not_integer
  | Book_added string
  | Book_added_plain
  | Book_updated string
  | Book_not_found

record session =
  cart :: "(int \<times> int) list option"
  admin_id :: "int option"
  flashes :: "flash list"

datatype 'p response =
    Redirect string
  | Render_cart "('p book \<times> int \<times> 'p) list" 'p
  | Render_checkout "('p book \<times> int \<times> 'p) list" 'p
  | Render_order_confirmation string 'p
  | Render_add_book
  | Render_edit_book
  | Bad_request
  | Not_found
  | Json_success
  | Crash exn

datatype http_method = GET | POST

definition flash :: "flash \<Rightarrow> session \<Rightarrow> session" where
  "flash m s = s\<lparr>flashes := flashes s @ [m]\<rparr>"

section \<open>Admin: marking a notification read (admin/routes.py)\<close>

text \<open>
  \<^verbatim>\<open>@admin.route('/notifications/<int:notification_id>/read')\<close>,
  \<^verbatim>\<open>@login_required def mark_notification_read(notification_id)\<close>. The \<^verbatim>\<open>int\<close> converter of
  the route matches digits only, of any length: a negative id is answered 404 before any
  view runs. The view calls the database method and then answers \<^verbatim>\<open>{'success': True}\<close>,
  whatever the update matched; when the method raises, the request ends there.
\<close>

definition admin_mark_notification_read ::
  "int \<Rightarrow> session \<Rightarrow> 'p database \<Rightarrow> 'p response \<times> session \<times> 'p database" where
  "admin_mark_notification_read notification_id s d =
     (if notification_id < 0 then (Not_found, s, d)
      else if admin_id s = None then (Redirect ''admin.login'', flash Please_log_in s, d)
      else (case mark_notification_read notification_id d of
              Inl e \<Rightarrow> (Crash e, s, d)
            | Inr d' \<Rightarrow> (Json_success, s, d')))"

section \<open>Storefront (app\_enhanced.py)\<close>

text \<open>\<^verbatim>\<open>conn.execute('SELECT * FROM books WHERE id = ?', (book_id,)).fetchone()\<close>\<close>

definition fetch_book :: "'p book list \<Rightarrow> int \<Rightarrow> 'p book option" where
  "fetch_book bs book_id = find (\<lambda>b. b_id b = book_id) bs"

text \<open>\<^verbatim>\<open>session['cart'][book_id] = v\<close> and \<^verbatim>\<open>del session['cart'][book_id]\<close>\<close>

definition cart_set :: "int \<Rightarrow> int \<Rightarrow> session \<Rightarrow> session" where
  "cart_set book_id v s = s\<lparr>cart := map_option (AList.update book_id v) (cart s)\<rparr>"

definition cart_del :: "int \<Rightarrow> session \<Rightarrow> session" where
  "cart_del book_id s = s\<lparr>cart := map_option (AList.delete book_id) (cart s)\<rparr>"

text \<open>\<^verbatim>\<open>book['price'] * quantity\<close>: a float times an int.\<close>

definition line_total :: "'p builtins \<Rightarrow> 'p \<Rightarrow> int \<Rightarrow> 'p" where
  "line_total ops price quantity = float_mul ops price (float_of_int ops quantity)"

subsection \<open>view\_cart\<close>

text \<open>
  The loop \<^verbatim>\<open>for book_id, quantity in session['cart'].items()\<close> of \<^verbatim>\<open>view_cart\<close>. Its state
  is the session, \<^verbatim>\<open>cart_items\<close> and \<^verbatim>\<open>total\<close> (\<open>tot\<close> below). Storing a new quantity under a key that
  exists leaves the dict's size alone and the iteration goes on. \<^verbatim>\<open>del\<close> changes the size
  of the dict being iterated: the line and its \<^verbatim>\<open>flash\<close> run, and the iterator's next
  step raises \<^verbatim>\<open>RuntimeError: dictionary changed size during iteration\<close>, also when the
  deleted line was the last one. A line whose book is absent matches neither branch.
\<close>

fun view_cart_loop ::
  "'p builtins \<Rightarrow> 'p book list \<Rightarrow> (int \<times> int) list \<Rightarrow>
   session \<times> ('p book \<times> int \<times> 'p) list \<times> 'p \<Rightarrow>
   exn option \<times> session \<times> ('p book \<times> int \<times> 'p) list \<times> 'p" where
  "view_cart_loop ops bs [] st = (None, st)"
| "view_cart_loop ops bs ((book_id, quantity) # rest) (s, cart_items, tot) =
     (case fetch_book bs book_id of
        None \<Rightarrow> view_cart_loop ops bs rest (s, cart_items, tot)
      | Some book \<Rightarrow>
          if b_stock book \<ge> quantity then
            let item_total = line_total ops (b_price book) quantity
            in view_cart_loop ops bs rest
                 (s, cart_items @ [(book, quantity, item_total)], float_add ops tot item_total)
          else
            let s1 = cart_set book_id (b_stock book) s
            in if b_stock book > 0 then
                 let item_total = line_total ops (b_price book) (b_stock book)
                 in view_cart_loop ops bs rest
                      (flash (Quantity_adjusted (b_title book)) s1,
                       cart_items @ [(book, b_stock book, item_total)],
                       float_add ops tot item_total)
               else
                 (Some RuntimeError,
                  flash (Out_of_stock_removed (b_title book)) (cart_del book_id s1),
                  cart_items, tot))"

definition view_cart ::
  "'p builtins \<Rightarrow> session \<Rightarrow> 'p database \<Rightarrow> 'p response \<times> session \<times> 'p database" where
  "view_cart ops s d =
     (case cart s of
        None \<Rightarrow> (Render_cart [] (float_of_int ops 0), s, d)
      | Some c \<Rightarrow>
          if c = [] then (Render_cart [] (float_of_int ops 0), s, d)
          else (case view_cart_loop ops (books d) c (s, [], float_of_int ops 0) of
                  (Some e, s', cart_items, tot) \<Rightarrow> (Crash e, s', d)
                | (None, s', cart_items, tot) \<Rightarrow> (Render_cart cart_items tot, s', d)))"

text \<open>
  \<^verbatim>\<open>view_cart\<close> of app.py, the earlier storefront: every line whose book exists is shown
  with the quantity the cart holds; stock is not read.
\<close>

fun app_view_cart_loop ::
  "'p builtins \<Rightarrow> 'p book list \<Rightarrow> (int \<times> int) list \<Rightarrow>
   ('p book \<times> int \<times> 'p) list \<times> 'p \<Rightarrow> ('p book \<times> int \<times> 'p) list \<times> 'p" where
  "app_view_cart_loop ops bs [] st = st"
| "app_view_cart_loop ops bs ((book_id, quantity) # rest) (cart_items, tot) =
     (case fetch_book bs book_id of
        None \<Rightarrow> app_view_cart_loop ops bs rest (cart_items, tot)
      | Some book \<Rightarrow>
          let item_total = line_total ops (b_price book) quantity
          in app_view_cart_loop ops bs rest
               (cart_items @ [(book, quantity, item_total)], float_add ops tot item_total))"

definition app_view_cart ::
  "'p builtins \<Rightarrow> session \<Rightarrow> 'p database \<Rightarrow> 'p response \<times> session \<times> 'p database" where
  "app_view_cart ops s d =
     (case cart s of
        None \<Rightarrow> (Render_cart [] (float_of_int ops 0), s, d)
      | Some c \<Rightarrow>
          if c = [] then (Render_cart [] (float_of_int ops 0), s, d)
          else (case app_view_cart_loop ops (books d) c ([], float_of_int ops 0) of
                  (cart_items, tot) \<Rightarrow> (Render_cart cart_items tot, s, d)))"

subsection \<open>checkout\<close>

record 'p cart_item =
  ci_book_id :: int
  ci_quantity :: int
  ci_price :: 'p

text \<open>
  The form of a checkout \<^verbatim>\<open>POST\<close>. \<^verbatim>\<open>customer_name\<close> and \<^verbatim>\<open>customer_email\<close> are read
  with \<^verbatim>\<open>request.form[...]\<close> and are present; the other three are read with
  \<^verbatim>\<open>request.form.get\<close> and a default.
\<close>

record checkout_form =
  customer_name :: string
  customer_email :: string
  customer_phone :: "string option"
  shipping_address :: "string option"
  payment_method :: "string option"

definition form_get :: "string option \<Rightarrow> string \<Rightarrow> string" where
  "form_get v dflt = (case v of None \<Rightarrow> dflt | Some x \<Rightarrow> x)"

text \<open>
  The first loop of the \<^verbatim>\<open>POST\<close> branch: re-read every book of the cart, add up \<^verbatim>\<open>total\<close>
  and collect \<^verbatim>\<open>cart_items\<close> with the price just read. The \<^verbatim>\<open>else\<close> branch is taken when
  the book is absent or short of stock; it formats \<^verbatim>\<open>book["title"]\<close> and \<^verbatim>\<open>book["stock"]\<close>
  into the message, which raises \<^verbatim>\<open>TypeError\<close> when \<^verbatim>\<open>book\<close> is \<^verbatim>\<open>None\<close>.
\<close>

datatype check_error = Absent_book | Short_stock string int

fun checkout_loop ::
  "'p builtins \<Rightarrow> 'p book list \<Rightarrow> (int \<times> int) list \<Rightarrow> 'p \<times> 'p cart_item list \<Rightarrow>
   check_error + 'p \<times> 'p cart_item list" where
  "checkout_loop ops bs [] st = Inr st"
| "checkout_loop ops bs ((book_id, quantity) # rest) (tot, cart_items) =
     (case fetch_book bs book_id of
        None \<Rightarrow> Inl Absent_book
      | Some book \<Rightarrow>
          if b_stock book \<ge> quantity then
            checkout_loop ops bs rest
              (float_add ops tot (line_total ops (b_price book) quantity),
               cart_items @
                 [\<lparr>ci_book_id = book_id, ci_quantity = quantity, ci_price = b_price book\<rparr>])
          else Inl (Short_stock (b_title book) (b_stock book)))"

definition checkout_check ::
  "'p builtins \<Rightarrow> session \<Rightarrow> 'p database \<Rightarrow> (int \<times> int) list \<Rightarrow>
   'p response \<times> session + 'p \<times> 'p cart_item list" where
  "checkout_check ops s d c =
     (case checkout_loop ops (books d) c (float_of_int ops 0, []) of
        Inl Absent_book \<Rightarrow> Inl (Crash TypeError, s)
      | Inl (Short_stock title available) \<Rightarrow>
          Inl (Redirect ''view_cart'', flash (Insufficient_stock title available) s)
      | Inr checked \<Rightarrow> Inr checked)"

text \<open>
  \<^verbatim>\<open>UPDATE books SET stock = stock - ? WHERE id = ?\<close>, with \<^verbatim>\<open>(quantity, book_id)\<close>. The
  subtraction is the one on integers; SQLite's leaves them, for a floating-point value,
  when the result does not fit 64 bits (a quantity near \<open>- 2 ^ 63\<close>), and there the
  definition does not follow it.
\<close>

definition decrement_stock :: "int \<Rightarrow> int \<Rightarrow> 'p book list \<Rightarrow> 'p book list" where
  "decrement_stock book_id quantity bs =
     map (\<lambda>b. if b_id b = book_id then b\<lparr>b_stock := b_stock b - quantity\<rparr> else b) bs"

text \<open>One turn of the second loop: \<^verbatim>\<open>INSERT INTO order_items\<close>, then the stock update.\<close>

definition item_row :: "string \<Rightarrow> 'p cart_item \<Rightarrow> 'p order_item" where
  "item_row order_id item =
     \<lparr>oi_order_id = order_id, oi_book_id = ci_book_id item,
      oi_quantity = ci_quantity item, oi_price = ci_price item\<rparr>"

definition add_order_item :: "string \<Rightarrow> 'p database \<Rightarrow> 'p cart_item \<Rightarrow> 'p database" where
  "add_order_item order_id d item =
     d\<lparr>order_items := order_items d @ [item_row order_id item],
       books := decrement_stock (ci_book_id item) (ci_quantity item) (books d)\<rparr>"

definition new_order :: "string \<Rightarrow> checkout_form \<Rightarrow> 'p \<Rightarrow> 'p order" where
  "new_order order_id form tot =
     \<lparr>o_order_id = order_id, o_customer_name = customer_name form,
      o_customer_email = customer_email form,
      o_customer_phone = form_get (customer_phone form) [],
      o_shipping_address = form_get (shipping_address form) [],
      o_total_amount = tot, o_status = ''pending'',
      o_payment_method = form_get (payment_method form) ''cash_on_delivery''\<rparr>"

text \<open>
  The rest of the \<^verbatim>\<open>POST\<close> branch, from \<^verbatim>\<open># Create order\<close> on: the order row, the second
  loop and \<^verbatim>\<open>commit\<close>, then the \<^verbatim>\<open>new_order\<close> notification, then the cart is popped.
  \<^verbatim>\<open>orders.order_id\<close> is \<^verbatim>\<open>UNIQUE\<close>, and \<^verbatim>\<open>orders.total_amount\<close> and \<^verbatim>\<open>order_items.price\<close>
  are \<^verbatim>\<open>NOT NULL\<close>: an insert that breaks one of them raises \<^verbatim>\<open>IntegrityError\<close>. The
  quantity of an item is bound as an integer, so that the insert of an item raises
  \<^verbatim>\<open>OverflowError\<close> when it does not fit. \<open>item_error\<close> is the first exception the second
  loop meets. An exception comes before the commit: nothing of the request is kept.
\<close>

fun item_error :: "'p builtins \<Rightarrow> 'p cart_item list \<Rightarrow> exn option" where
  "item_error ops [] = None"
| "item_error ops (item # items) =
     (if \<not> sqlite_int (ci_quantity item) then Some OverflowError
      else if float_isnan ops (ci_price item) then Some IntegrityError
      else item_error ops items)"

definition checkout_write ::
  "'p builtins \<Rightarrow> string \<Rightarrow> checkout_form \<Rightarrow> 'p \<Rightarrow> 'p cart_item list \<Rightarrow> session \<Rightarrow>
   'p database \<Rightarrow> 'p response \<times> session \<times> 'p database" where
  "checkout_write ops order_id form tot cart_items s d =
     (if order_id \<in> set (map o_order_id (orders d)) \<or> float_isnan ops tot
      then (Crash IntegrityError, s, d)
      else (case item_error ops cart_items of
              Some e \<Rightarrow> (Crash e, s, d)
            | None \<Rightarrow>
                let d1 = d\<lparr>orders := orders d @ [new_order order_id form tot]\<rparr>;
                    d2 = foldl (add_order_item order_id) d1 cart_items;
                    d3 = add_notification ''new_order'' ''New Order Received''
                           (''Order '' @ order_id @ '' placed by '' @ customer_name form @
                            '' for $'' @ float_format2 ops tot) d2
                in (Render_order_confirmation order_id tot,
                    flash (Order_placed order_id) (s\<lparr>cart := None\<rparr>), d3)))"

text \<open>
  \<^verbatim>\<open>checkout\<close>. \<open>r\<close> is the 16 bytes \<^verbatim>\<open>uuid.uuid4()\<close> draws. The loop of the \<^verbatim>\<open>GET\<close>
  branch is, line for line, the loop of app.py's \<^verbatim>\<open>view_cart\<close>.
\<close>

definition checkout ::
  "'p builtins \<Rightarrow> http_method \<Rightarrow> 8 word list \<Rightarrow> checkout_form \<Rightarrow> session \<Rightarrow> 'p database \<Rightarrow>
   'p response \<times> session \<times> 'p database" where
  "checkout ops method r form s d =
     (case cart s of
        None \<Rightarrow> (Redirect ''index'', flash Cart_empty s, d)
      | Some c \<Rightarrow>
          if c = [] then (Redirect ''index'', flash Cart_empty s, d)
          else if method = POST then
            (case checkout_check ops s d c of
               Inl (resp, s') \<Rightarrow> (resp, s', d)
             | Inr (tot, cart_items) \<Rightarrow>
                 checkout_write ops (new_order_id r) form tot cart_items s d)
          else
            (case app_view_cart_loop ops (books d) c ([], float_of_int ops 0) of
               (cart_items, tot) \<Rightarrow> (Render_checkout cart_items tot, s, d)))"

subsection \<open>Checkouts of several clients\<close>

text \<open>
  Each request works on its own connection. The \<^verbatim>\<open>SELECT\<close>s of the first loop run outside
  any transaction; the \<^verbatim>\<open>sqlite3\<close> module opens one at the first \<^verbatim>\<open>INSERT\<close>, and it ends at
  \<^verbatim>\<open>commit\<close>. A request is therefore two steps on the shared database, the reads and the
  writes, and requests of different clients interleave between the two. A schedule names
  the request that takes the next step.
\<close>

datatype 'p proc =
    Arrived checkout_form "8 word list" session
  | Checked checkout_form "8 word list" session 'p "'p cart_item list"
  | Answered "'p response" session

fun proc_step :: "'p builtins \<Rightarrow> 'p proc \<Rightarrow> 'p database \<Rightarrow> 'p proc \<times> 'p database" where
  "proc_step ops (Arrived form r s) d =
     (case cart s of
        None \<Rightarrow> (Answered (Redirect ''index'') (flash Cart_empty s), d)
      | Some c \<Rightarrow>
          if c = [] then (Answered (Redirect ''index'') (flash Cart_empty s), d)
          else (case checkout_check ops s d c of
                  Inl (resp, s') \<Rightarrow> (Answered resp s', d)
                | Inr (tot, cart_items) \<Rightarrow> (Checked form r s tot cart_items, d)))"
| "proc_step ops (Checked form r s tot cart_items) d =
     (case checkout_write ops (new_order_id r) form tot cart_items s d of
        (resp, s', d') \<Rightarrow> (Answered resp s', d'))"
| "proc_step ops (Answered resp s) d = (Answered resp s, d)"

fun run_schedule ::
  "'p builtins \<Rightarrow> nat list \<Rightarrow> 'p proc list \<times> 'p database \<Rightarrow> 'p proc list \<times> 'p database" where
  "run_schedule ops [] st = st"
| "run_schedule ops (i # sched) (ps, d) =
     (if i < length ps
      then (case proc_step ops (ps ! i) d of
              (p', d') \<Rightarrow> run_schedule ops sched (ps[i := p'], d'))
      else run_schedule ops sched (ps, d))"

section \<open>Admin: books (admin/routes.py and app.py)\<close>

text \<open>
  The form of the add and edit pages. \<open>bf_image\<close> is the file name the upload branch
  stored the cover under, \<open>None\<close> when no file of an allowed type was sent.
\<close>

record book_form =
  bf_title :: string
  bf_author :: string
  bf_description :: "string option"
  bf_price :: string
  bf_stock :: string
  bf_genre :: "string option"
  bf_stock_threshold :: "string option"
  bf_image :: "string option"

definition non_finite_names :: "string list" where
  "non_finite_names = [''nan'', ''inf'', ''-inf'', ''infinity'', ''-infinity'']"

text \<open>
  The checks of price, stock and stock threshold, which \<^verbatim>\<open>add_book\<close> and \<^verbatim>\<open>edit_book\<close> of
  admin/routes.py both carry, word for word, in this order. Each failure flashes a message
  and renders the form again.
\<close>

definition validate_book_form :: "'p builtins \<Rightarrow> book_form \<Rightarrow> flash + 'p \<times> int \<times> int" where
  "validate_book_form ops form =
     (let price_str = str_strip (bf_price form)
      in if str_lower price_str \<in> set non_finite_names then Inl Invalid_price
         else (case py_float ops price_str of
                 None \<Rightarrow> Inl Price_not_number
               | Some price \<Rightarrow>
                   if float_lt_zero ops price then Inl Price_not_positive
                   else (case py_int ops (bf_stock form) of
                           None \<Rightarrow> Inl Stock_not_integer
                         | Some stock \<Rightarrow>
                             if stock < 0 then Inl Stock_negative
                             else (case py_int ops (form_get (bf_stock_threshold form) ''5'') of
                                     None \<Rightarrow> Inl Threshold_not_integer
                                   | Some stock_threshold \<Rightarrow>
                                       if stock_threshold < 0 then Inl Threshold_negative
                                       else Inr (price, stock, stock_threshold)))))"

text \<open>\<^verbatim>\<open>INSERT INTO books (...) VALUES (...)\<close>: the id is the next of the sequence.\<close>

definition insert_book ::
  "string \<Rightarrow> string \<Rightarrow> string \<Rightarrow> 'p \<Rightarrow> int \<Rightarrow> string \<Rightarrow> string option \<Rightarrow> int \<Rightarrow>
   'p database \<Rightarrow> 'p database" where
  "insert_book title author description price stock genre image_filename stock_threshold d =
     d\<lparr>books := books d @
          [\<lparr>b_id = books_seq d + 1, b_title = title, b_author = author,
            b_description = description, b_price = price, b_stock = stock, b_genre = genre,
            b_image_filename = image_filename, b_stock_threshold = stock_threshold\<rparr>],
       books_seq := books_seq d + 1\<rparr>"

definition quoted :: "string \<Rightarrow> string" where
  "quoted t = CHR 0x22 # t @ [CHR 0x22]"

text \<open>
  \<^verbatim>\<open>add_book\<close> of admin/routes.py. \<^verbatim>\<open>stock\<close> and \<^verbatim>\<open>stock_threshold\<close> are bound as
  integers, and \<^verbatim>\<open>books.price\<close> is \<^verbatim>\<open>REAL NOT NULL\<close>.
\<close>

definition add_book ::
  "'p builtins \<Rightarrow> http_method \<Rightarrow> book_form \<Rightarrow> session \<Rightarrow> 'p database \<Rightarrow>
   'p response \<times> session \<times> 'p database" where
  "add_book ops method form s d =
     (if admin_id s = None then (Redirect ''admin.login'', flash Please_log_in s, d)
      else if method = POST then
        (case validate_book_form ops form of
           Inl message \<Rightarrow> (Render_add_book, flash message s, d)
         | Inr (price, stock, stock_threshold) \<Rightarrow>
             if sqlite_int stock \<and> sqlite_int stock_threshold then
               if float_isnan ops price then (Crash IntegrityError, s, d)
               else
                 let d1 = insert_book (bf_title form) (bf_author form)
                            (form_get (bf_description form) []) price stock
                            (form_get (bf_genre form) []) (bf_image form) stock_threshold d;
                     d2 = add_notification ''book_added'' ''New Book Added''
                            (quoted (bf_title form) @ '' by '' @ bf_author form @
                             '' has been added to the catalog.'') d1
                 in (Redirect ''admin.books'', flash (Book_added (bf_title form)) s, d2)
             else (Crash OverflowError, s, d))
      else (Render_add_book, s, d))"

text \<open>
  \<^verbatim>\<open>admin_add_book\<close> of app.py: \<^verbatim>\<open>price = float(request.form['price'])\<close> and
  \<^verbatim>\<open>stock = int(request.form['stock'])\<close> with no check around them; \<^verbatim>\<open>description\<close> and
  \<^verbatim>\<open>genre\<close> are read with \<^verbatim>\<open>request.form[...]\<close>, which answers 400 when the field is
  missing. The insert names no \<^verbatim>\<open>stock_threshold\<close>; the column, where the table has it,
  takes its default 5.
\<close>

definition admin_add_book ::
  "'p builtins \<Rightarrow> http_method \<Rightarrow> book_form \<Rightarrow> session \<Rightarrow> 'p database \<Rightarrow>
   'p response \<times> session \<times> 'p database" where
  "admin_add_book ops method form s d =
     (if admin_id s = None then (Redirect ''admin_login'', flash Please_log_in s, d)
      else if method = POST then
        (case bf_description form of
           None \<Rightarrow> (Bad_request, s, d)
         | Some description \<Rightarrow>
        (case py_float ops (bf_price form) of
           None \<Rightarrow> (Crash ValueError, s, d)
         | Some price \<Rightarrow>
        (case py_int ops (bf_stock form) of
           None \<Rightarrow> (Crash ValueError, s, d)
         | Some stock \<Rightarrow>
        (case bf_genre form of
           None \<Rightarrow> (Bad_request, s, d)
         | Some genre \<Rightarrow>
             if sqlite_int stock then
               if float_isnan ops price then (Crash IntegrityError, s, d)
               else (Redirect ''admin_books'', flash Book_added_plain s,
                     insert_book (bf_title form) (bf_author form) description price stock genre
                       (bf_image form) 5 d)
             else (Crash OverflowError, s, d)))))
      else (Render_add_book, s, d))"

text \<open>
  \<^verbatim>\<open>edit_book\<close> of admin/routes.py, on \<^verbatim>\<open>/books/<int:book_id>/edit\<close>: a negative id is
  answered 404 by the route, and an id that does not fit an SQLite integer fails in the
  first \<^verbatim>\<open>SELECT\<close>. The low-stock alert is written, on a connection of its own, before the
  \<^verbatim>\<open>UPDATE\<close>: when the new stock is at or below the new threshold and the old stock was
  above it. It stays when the \<^verbatim>\<open>UPDATE\<close> then fails.
\<close>

definition update_book ::
  "int \<Rightarrow> string \<Rightarrow> string \<Rightarrow> string \<Rightarrow> 'p \<Rightarrow> int \<Rightarrow> string \<Rightarrow> string option \<Rightarrow> int \<Rightarrow>
   'p database \<Rightarrow> 'p database" where
  "update_book book_id title author description price stock genre image_filename
     stock_threshold d =
     d\<lparr>books := map (\<lambda>b. if b_id b = book_id
                          then b\<lparr>b_title := title, b_author := author,
                                 b_description := description, b_price := price,
                                 b_stock := stock, b_genre := genre,
                                 b_image_filename := image_filename,
                                 b_stock_threshold := stock_threshold\<rparr>
                          else b) (books d)\<rparr>"

definition edit_book ::
  "'p builtins \<Rightarrow> http_method \<Rightarrow> int \<Rightarrow> book_form \<Rightarrow> session \<Rightarrow> 'p database \<Rightarrow>
   'p response \<times> session \<times> 'p database" where
  "edit_book ops method book_id form s d =
     (if book_id < 0 then (Not_found, s, d)
      else if admin_id s = None then (Redirect ''admin.login'', flash Please_log_in s, d)
      else if sqlite_int book_id then
        (case fetch_book (books d) book_id of
           None \<Rightarrow> (Redirect ''admin.books'', flash Book_not_found s, d)
         | Some book \<Rightarrow>
             if method = POST then
               (case validate_book_form ops form of
                  Inl message \<Rightarrow> (Render_edit_book, flash message s, d)
                | Inr (price, stock, stock_threshold) \<Rightarrow>
                    let image_filename =
                          (case bf_image form of
                             None \<Rightarrow> b_image_filename book | Some f \<Rightarrow> Some f);
                        old_stock = b_stock book;
                        d1 = (if stock \<le> stock_threshold \<and> old_stock > stock_threshold
                              then add_notification ''low_stock'' ''Low Stock Alert''
                                     (quoted (bf_title form) @ '' is now low on stock ('' @
                                      py_str ops stock @ '' remaining).'') d
                              else d)
                    in if sqlite_int stock \<and> sqlite_int stock_threshold then
                         if float_isnan ops price then (Crash IntegrityError, s, d1)
                         else (Redirect ''admin.books'',
                               flash (Book_updated (bf_title form)) s,
                               update_book book_id (bf_title form) (bf_author form)
                                 (form_get (bf_description form) []) price stock
                                 (form_get (bf_genre form) []) image_filename
                                 stock_threshold d1)
                       else (Crash OverflowError, s, d1))
             else (Render_edit_book, s, d))
      else (Crash OverflowError, s, d))"

section \<open>An exact instance of the builtins\<close>

text \<open>
  To run the model at concrete inputs: floats as exact rationals with the three special
  values, \<^verbatim>\<open>float(s)\<close> and \<^verbatim>\<open>int(s)\<close> on signed decimal text, and the special names
  \<^verbatim>\<open>float\<close> accepts in any case. It is not Python's \<^verbatim>\<open>float\<close>: it rounds nothing, and
  text with an exponent or with digit grouping, which \<^verbatim>\<open>float\<close> and \<^verbatim>\<open>int\<close> read, is
  refused here. It is applied below to whole numbers and to the special names only. The
  theorems about all inputs hold for every record of builtins and do not mention it.
\<close>

datatype pyfloat = Finite rat | PosInf | NegInf | NaN

fun pf_add :: "pyfloat \<Rightarrow> pyfloat \<Rightarrow> pyfloat" where
  "pf_add NaN y = NaN"
| "pf_add x NaN = NaN"
| "pf_add PosInf NegInf = NaN"
| "pf_add NegInf PosInf = NaN"
| "pf_add PosInf y = PosInf"
| "pf_add NegInf y = NegInf"
| "pf_add (Finite a) PosInf = PosInf"
| "pf_add (Finite a) NegInf = NegInf"
| "pf_add (Finite a) (Finite b) = Finite (a + b)"

fun pf_sign :: "pyfloat \<Rightarrow> int" where
  "pf_sign (Finite a) = (if a < 0 then - 1 else if a = 0 then 0 else 1)"
| "pf_sign PosInf = 1"
| "pf_sign NegInf = - 1"
| "pf_sign NaN = 0"

fun pf_mul :: "pyfloat \<Rightarrow> pyfloat \<Rightarrow> pyfloat" where
  "pf_mul (Finite a) (Finite b) = Finite (a * b)"
| "pf_mul NaN y = NaN"
| "pf_mul x NaN = NaN"
| "pf_mul x y =
     (if pf_sign x * pf_sign y = 0 then NaN
      else if pf_sign x * pf_sign y > 0 then PosInf else NegInf)"

fun pf_lt_zero :: "pyfloat \<Rightarrow> bool" where
  "pf_lt_zero (Finite a) = (a < 0)"
| "pf_lt_zero NegInf = True"
| "pf_lt_zero x = False"

fun pf_isnan :: "pyfloat \<Rightarrow> bool" where
  "pf_isnan NaN = True"
| "pf_isnan x = False"

definition digit_char :: "int \<Rightarrow> char" where
  "digit_char n = ''0123456789'' ! nat (n mod 10)"

function str_digits :: "int \<Rightarrow> string" where
  "str_digits n = (if n < 10 then [digit_char n] else str_digits (n div 10) @ [digit_char n])"
  by pat_completeness auto
termination
  by (relation "measure nat") auto

declare str_digits.simps [simp del]

definition str_int :: "int \<Rightarrow> string" where
  "str_int i = (if i < 0 then CHR ''-'' # str_digits (- i) else str_digits i)"

definition round_half_even :: "rat \<Rightarrow> int" where
  "round_half_even x =
     (let n = \<lfloor>x\<rfloor>; f = x - of_int n
      in if f > 1 / 2 \<or> (f = 1 / 2 \<and> odd n) then n + 1 else n)"

fun pf_format2 :: "pyfloat \<Rightarrow> string" where
  "pf_format2 (Finite a) =
     (let n = round_half_even (\<bar>a\<bar> * 100)
      in (if a < 0 then ''-'' else []) @ str_digits (n div 100) @ ''.'' @
         [digit_char (n div 10), digit_char n])"
| "pf_format2 PosInf = ''inf''"
| "pf_format2 NegInf = ''-inf''"
| "pf_format2 NaN = ''nan''"

fun digits_val :: "string \<Rightarrow> nat \<Rightarrow> nat option" where
  "digits_val [] acc = Some acc"
| "digits_val (c # cs) acc =
     (let n = of_char c :: nat
      in if 48 \<le> n \<and> n \<le> 57 then digits_val cs (10 * acc + (n - 48)) else None)"

definition split_sign :: "string \<Rightarrow> bool \<times> string" where
  "split_sign s =
     (case s of
        [] \<Rightarrow> (False, [])
      | c # cs \<Rightarrow> if c = CHR ''-'' then (True, cs)
                  else if c = CHR ''+'' then (False, cs) else (False, s))"

definition exact_int :: "string \<Rightarrow> int option" where
  "exact_int s =
     (case split_sign (str_strip s) of
        (neg, body) \<Rightarrow>
          if body = [] then None
          else map_option (\<lambda>n. if neg then - int n else int n) (digits_val body 0))"

definition exact_float :: "string \<Rightarrow> pyfloat option" where
  "exact_float s =
     (case split_sign (str_strip s) of
        (neg, body) \<Rightarrow>
          let b = str_lower body;
              ip = takeWhile (\<lambda>c. c \<noteq> CHR ''.'') b;
              fp = drop 1 (dropWhile (\<lambda>c. c \<noteq> CHR ''.'') b)
          in if b = ''inf'' \<or> b = ''infinity'' then Some (if neg then NegInf else PosInf)
             else if b = ''nan'' then Some NaN
             else if ip = [] \<and> fp = [] then None
             else (case (digits_val ip 0, digits_val fp 0) of
                     (Some i, Some f) \<Rightarrow>
                       Some (Finite ((if neg then - 1 else 1) *
                                     (of_nat i + of_nat f / 10 ^ length fp)))
                   | _ \<Rightarrow> None))"

definition exact :: "pyfloat builtins" where
  "exact =
     \<lparr>py_float = exact_float, py_int = exact_int, float_of_int = (\<lambda>i. Finite (of_int i)),
      float_add = pf_add, float_mul = pf_mul, float_lt_zero = pf_lt_zero,
      float_isnan = pf_isnan, float_format2 = pf_format2, py_str = str_int\<rparr>"

subsection \<open>A small shop\<close>

definition shop :: "pyfloat database" where
  "shop =
     \<lparr>books =
        [\<lparr>b_id = 1, b_title = ''1984'', b_author = ''George Orwell'', b_description = [],
          b_price = Finite 15, b_stock = 1, b_genre = ''Science Fiction'',
          b_image_filename = None, b_stock_threshold = 0\<rparr>,
         \<lparr>b_id = 2, b_title = ''Emma'', b_author = ''Jane Austen'', b_description = [],
          b_price = Finite 12, b_stock = 6, b_genre = ''Romance'',
          b_image_filename = None, b_stock_threshold = 5\<rparr>,
         \<lparr>b_id = 3, b_title = ''Ulysses'', b_author = ''James Joyce'', b_description = [],
          b_price = Finite 20, b_stock = 0, b_genre = ''Fiction'',
          b_image_filename = None, b_stock_threshold = 5\<rparr>],
      books_seq = 3,
      orders = [],
      order_items = [],
      notifications =
        [\<lparr>n_id = 1, n_type = ''book_added'', n_title = ''New Book Added'',
          n_message = ''Emma'', n_is_read = True\<rparr>,
         \<lparr>n_id = 2, n_type = ''book_added'', n_title = ''New Book Added'',
          n_message = ''Ulysses'', n_is_read = False\<rparr>],
      notifications_seq = 2\<rparr>"

definition shopper :: "(int \<times> int) list \<Rightarrow> session" where
  "shopper c = \<lparr>cart = Some c, admin_id = None, flashes = []\<rparr>"

definition admin_session :: session where
  "admin_session = \<lparr>cart = None, admin_id = Some 1, flashes = []\<rparr>"

definition alice :: checkout_form where
  "alice = \<lparr>customer_name = ''Alice'', customer_email = ''alice@example.org'',
            customer_phone = None, shipping_address = None, payment_method = None\<rparr>"

definition bob :: checkout_form where
  "bob = \<lparr>customer_name = ''Bob'', customer_email = ''bob@example.org'',
          customer_phone = None, shipping_address = None, payment_method = None\<rparr>"

definition book_with_price :: "string \<Rightarrow> book_form" where
  "book_with_price p =
     \<lparr>bf_title = ''Dubliners'', bf_author = ''James Joyce'', bf_description = Some [],
      bf_price = p, bf_stock = ''4'', bf_genre = Some ''Fiction'',
      bf_stock_threshold = None, bf_image = None\<rparr>"

definition rand_a :: "8 word list" where
  "rand_a = [0x19, 0x6b, 0x7c, 0x81, 0xab, 0xcd, 0xef, 0x01,
             0x23, 0x45, 0x67, 0x89, 0xab, 0xcd, 0xef, 0x01]"

definition rand_b :: "8 word list" where
  "rand_b = [0x2f, 0x00, 0x5d, 0xe4, 0xab, 0xcd, 0xef, 0x01,
             0x23, 0x45, 0x67, 0x89, 0xab, 0xcd, 0xef, 0x01]"

text \<open>The shop with one order in it, under the identifier that \<open>rand_a\<close> gives.\<close>

definition busy_shop :: "pyfloat database" where
  "busy_shop = shop\<lparr>orders := [new_order ''196B7C81'' alice (Finite 24)]\<rparr>"

section \<open>Reading an order back\<close>

text \<open>
  The lines of an order, \<^verbatim>\<open>SELECT ... FROM order_items WHERE order_id = ?\<close> as the admin's
  order page reads them, and the sum of quantity times unit price over them: added up in
  row order from \<^verbatim>\<open>0\<close>, with the float operations the checkout itself uses.
\<close>

definition order_lines :: "string \<Rightarrow> 'p database \<Rightarrow> 'p order_item list" where
  "order_lines order_id d = filter (\<lambda>item. oi_order_id item = order_id) (order_items d)"

definition sum_of_lines :: "'p builtins \<Rightarrow> 'p order_item list \<Rightarrow> 'p" where
  "sum_of_lines ops items =
     foldl (\<lambda>acc item. float_add ops acc (line_total ops (oi_price item) (oi_quantity item)))
       (float_of_int ops 0) items"

text \<open>
  What a checkout that goes through leaves in the database: the order row, one row per
  cart item with the stock update after each, and the \<^verbatim>\<open>new_order\<close> notification. It is
  the \<^verbatim>\<open>else\<close> branch of \<open>checkout_write\<close>, named.
\<close>

definition placed_db ::
  "'p builtins \<Rightarrow> string \<Rightarrow> checkout_form \<Rightarrow> 'p \<Rightarrow> 'p cart_item list \<Rightarrow> 'p database \<Rightarrow>
   'p database" where
  "placed_db ops order_id form tot cart_items d =
     add_notification ''new_order'' ''New Order Received''
       (''Order '' @ order_id @ '' placed by '' @ customer_name form @ '' for $'' @
        float_format2 ops tot)
       (foldl (add_order_item order_id)
          (d\<lparr>orders := orders d @ [new_order order_id form tot]\<rparr>) cart_items)"

definition cart_lines :: "'p cart_item list \<Rightarrow> (int \<times> int) list" where
  "cart_lines cart_items = map (\<lambda>item. (ci_book_id item, ci_quantity item)) cart_items"

text \<open>
  A cart line that cannot be served from a list of books: the book is gone, or its stock
  is below the quantity asked for.
\<close>

definition line_fails :: "'p book list \<Rightarrow> int \<times> int \<Rightarrow> bool" where
  "line_fails bs line =
     (case fetch_book bs (fst line) of None \<Rightarrow> True | Some book \<Rightarrow> b_stock book < snd line)"

text \<open>
  A cart line whose book is there with no stock left while the line asks for more: the
  line \<^verbatim>\<open>view_cart\<close> deletes.
\<close>

definition line_sold_out :: "'p book list \<Rightarrow> int \<times> int \<Rightarrow> bool" where
  "line_sold_out bs line =
     (case fetch_book bs (fst line) of
        None \<Rightarrow> False
      | Some book \<Rightarrow> b_stock book < snd line \<and> b_stock book \<le> 0)"

text \<open>The identifiers a checkout can draw: \<^verbatim>\<open>os.urandom(16)\<close> returns 16 bytes.\<close>

definition order_id_space :: "string set" where
  "order_id_space = new_order_id ` {r. length r = 16}"

definition upper_hex_digits :: "char set" where
  "upper_hex_digits = set ''0123456789ABCDEF''"

section \<open>The notification store\<close>

lemma update_is_read_noop:
  assumes "\<forall>n \<in> set (notifications d). n_id n = i \<longrightarrow> n_is_read n"
  shows "update_is_read i d = d"
proof -
  have "map (\<lambda>n. if n_id n = i then n\<lparr>n_is_read := True\<rparr> else n) (notifications d)
        = notifications d"
    using assms by (intro map_idI) simp
  then show ?thesis by (simp add: update_is_read_def)
qed

text \<open>
  C7. Marking read is idempotent: when every row carrying the id is already read, the
  update changes no row, and \<open>mark_notification_read\<close> returns the database it was given:
  the notification stays read and no other row changes. The method raises only for an id
  that is no SQLite integer, which the id of a stored notification never is.
\<close>

theorem mark_read_already_read_noop:
  assumes "\<forall>n \<in> set (notifications d). n_id n = i \<longrightarrow> n_is_read n"
  shows "update_is_read i d = d \<and>
         mark_notification_read i d = (if sqlite_int i then Inr d else Inl OverflowError)"
  using update_is_read_noop [OF assms] by (simp add: mark_notification_read_def)

theorem mark_read_already_read_noop_witness:
  "n_id (notifications shop ! 0) = 1 \<and> n_is_read (notifications shop ! 0) \<and>
   n_id (notifications shop ! 1) \<noteq> 1 \<and> sqlite_int 1 \<and>
   update_is_read 1 shop = shop \<and> mark_notification_read 1 shop = Inr shop"
proof -
  have h: "\<forall>n \<in> set (notifications shop). n_id n = 1 \<longrightarrow> n_is_read n"
    by (simp add: shop_def)
  have r: "sqlite_int 1" by (simp add: sqlite_int_def)
  from mark_read_already_read_noop [OF h] r
  have "update_is_read 1 shop = shop \<and> mark_notification_read 1 shop = Inr shop"
    by simp
  with r show ?thesis by (simp add: shop_def)
qed

lemma mark_read_twice:
  "update_is_read i (update_is_read i d) = update_is_read i d"
  by (simp add: update_is_read_def comp_def if_distrib cong: if_cong)

text \<open>
  C9, with the bound the code needs. Marking read an id that fits a signed 64-bit integer
  and that no row carries: the update matches nothing, the method raises nothing and
  returns the database as it was, and the route, which a logged-in admin reaches with an
  id that is not negative, answers success and leaves the session and the database alone.
\<close>

theorem mark_read_unknown_id_silent:
  assumes "i \<notin> n_id ` set (notifications d)" and "- (2 ^ 63) \<le> i" and "i < 2 ^ 63"
  shows "mark_notification_read i d = Inr d \<and>
         (0 \<le> i \<and> admin_id s \<noteq> None \<longrightarrow>
            admin_mark_notification_read i s d = (Json_success, s, d))"
proof -
  have "\<forall>n \<in> set (notifications d). n_id n = i \<longrightarrow> n_is_read n"
    using assms(1) by auto
  then have "update_is_read i d = d" by (rule update_is_read_noop)
  moreover have "sqlite_int i" using assms(2,3) by (simp add: sqlite_int_def)
  ultimately have m: "mark_notification_read i d = Inr d"
    by (simp add: mark_notification_read_def)
  then show ?thesis
    by (simp add: admin_mark_notification_read_def)
qed

theorem mark_read_unknown_id_silent_witness:
  "7 \<notin> n_id ` set (notifications shop) \<and> admin_id admin_session \<noteq> None \<and>
   mark_notification_read 7 shop = Inr shop \<and>
   admin_mark_notification_read 7 admin_session shop = (Json_success, admin_session, shop)"
proof -
  have h1: "7 \<notin> n_id ` set (notifications shop)" by (simp add: shop_def)
  have h2: "admin_id admin_session \<noteq> None" by (simp add: admin_session_def)
  from mark_read_unknown_id_silent [OF h1, of admin_session] h1 h2 show ?thesis by simp
qed

text \<open>
  The route hands every string of digits to the view. \<open>2 ^ 63\<close> is the id of no
  notification of the shop; the update cannot take it as a parameter, the method raises
  \<^verbatim>\<open>OverflowError\<close>, and the request ends there where the claim has it succeed.
\<close>

theorem mark_read_unknown_id_overflow:
  "9223372036854775808 \<notin> n_id ` set (notifications shop) \<and>
   mark_notification_read 9223372036854775808 shop = Inl OverflowError \<and>
   admin_mark_notification_read 9223372036854775808 admin_session shop =
     (Crash OverflowError, admin_session, shop)"
  by (simp add: shop_def admin_session_def admin_mark_notification_read_def
      mark_notification_read_def sqlite_int_def)

section \<open>Checkout: what each outcome leaves behind\<close>

lemma foldl_add_order_item_orders [simp]:
  "orders (foldl (add_order_item oid) d items) = orders d"
  by (induction items arbitrary: d) (simp_all add: add_order_item_def)

lemma foldl_add_order_item_notifications [simp]:
  "notifications (foldl (add_order_item oid) d items) = notifications d"
  by (induction items arbitrary: d) (simp_all add: add_order_item_def)

lemma foldl_add_order_item_items:
  "order_items (foldl (add_order_item oid) d items) = order_items d @ map (item_row oid) items"
  by (induction items arbitrary: d) (simp_all add: add_order_item_def)

lemma foldl_add_order_item_books:
  "books (foldl (add_order_item oid) d items) =
   foldl (\<lambda>bs item. decrement_stock (ci_book_id item) (ci_quantity item) bs) (books d) items"
  by (induction items arbitrary: d) (simp_all add: add_order_item_def)

lemma placed_db_orders:
  "orders (placed_db ops oid form tot items d) = orders d @ [new_order oid form tot]"
  by (simp add: placed_db_def add_notification_def)

lemma placed_db_order_items:
  "order_items (placed_db ops oid form tot items d) = order_items d @ map (item_row oid) items"
  by (simp add: placed_db_def add_notification_def foldl_add_order_item_items)

lemma placed_db_books:
  "books (placed_db ops oid form tot items d) =
   foldl (\<lambda>bs item. decrement_stock (ci_book_id item) (ci_quantity item) bs) (books d) items"
  by (simp add: placed_db_def add_notification_def foldl_add_order_item_books)

lemma placed_db_notification_types:
  "map n_type (notifications (placed_db ops oid form tot items d)) =
   map n_type (notifications d) @ [''new_order'']"
  by (simp add: placed_db_def add_notification_def)

text \<open>
  The first loop, when it runs to its end: one cart item per cart line, in order, each
  with the price of the book as fetched and a quantity the stock covers, and the total
  added up over them from the start value.
\<close>

lemma checkout_loop_Inr:
  assumes "checkout_loop ops bs c (t0, i0) = Inr (t, items)"
  shows "\<exists>new. items = i0 @ new \<and> cart_lines new = c \<and>
           t = foldl (\<lambda>acc it. float_add ops acc (line_total ops (ci_price it) (ci_quantity it)))
                 t0 new \<and>
           list_all (\<lambda>it. map_option b_price (fetch_book bs (ci_book_id it)) = Some (ci_price it))
             new"
  using assms
proof (induction c arbitrary: t0 i0)
  case Nil
  then show ?case by (simp add: cart_lines_def)
next
  case (Cons line c)
  obtain book_id quantity where line: "line = (book_id, quantity)" by (cases line)
  define it where
    "it = \<lparr>ci_book_id = book_id, ci_quantity = quantity,
           ci_price = b_price (the (fetch_book bs book_id))\<rparr>"
  from Cons.prems line obtain book where
    b: "fetch_book bs book_id = Some book" and
    rest: "checkout_loop ops bs c
             (float_add ops t0 (line_total ops (b_price book) quantity), i0 @ [it]) =
           Inr (t, items)"
    by (auto simp: it_def split: option.splits if_splits)
  from Cons.IH [OF rest] obtain new where
    n: "items = (i0 @ [it]) @ new" "cart_lines new = c"
       "t = foldl (\<lambda>acc it. float_add ops acc (line_total ops (ci_price it) (ci_quantity it)))
              (float_add ops t0 (line_total ops (b_price book) quantity)) new"
       "list_all (\<lambda>it. map_option b_price (fetch_book bs (ci_book_id it)) = Some (ci_price it))
          new"
    by blast
  have "items = i0 @ (it # new)" using n(1) by simp
  moreover have "cart_lines (it # new) = line # c"
    using n(2) line by (simp add: cart_lines_def it_def)
  moreover have
    "t = foldl (\<lambda>acc it. float_add ops acc (line_total ops (ci_price it) (ci_quantity it)))
           t0 (it # new)"
    using n(3) b by (simp add: it_def)
  moreover have
    "list_all (\<lambda>it. map_option b_price (fetch_book bs (ci_book_id it)) = Some (ci_price it))
       (it # new)"
    using n(4) b by (simp add: it_def)
  ultimately show ?case by blast
qed

lemma checkout_loop_fails:
  assumes "list_ex (line_fails bs) c"
  shows "\<exists>e. checkout_loop ops bs c st = Inl e"
  using assms
proof (induction c arbitrary: st)
  case Nil
  then show ?case by simp
next
  case (Cons line c)
  obtain book_id quantity where line: "line = (book_id, quantity)" by (cases line)
  obtain tot cart_items where st: "st = (tot, cart_items)" by (cases st)
  show ?case
  proof (cases "line_fails bs line")
    case True
    with line st show ?thesis
      by (auto simp: line_fails_def split: option.splits)
  next
    case False
    with Cons.prems have "list_ex (line_fails bs) c" by simp
    from Cons.IH [OF this] line st show ?thesis
      by (auto split: option.splits)
  qed
qed

lemma checkout_check_Inl:
  assumes "checkout_check ops s d c = Inl (resp, s')"
  shows "(resp = Crash TypeError \<and> s' = s \<and>
          checkout_loop ops (books d) c (float_of_int ops 0, []) = Inl Absent_book) \<or>
         (\<exists>title available. resp = Redirect ''view_cart'' \<and>
            s' = flash (Insufficient_stock title available) s \<and>
            checkout_loop ops (books d) c (float_of_int ops 0, []) =
              Inl (Short_stock title available))"
proof (cases "checkout_loop ops (books d) c (float_of_int ops 0, [])")
  case (Inl e)
  with assms show ?thesis
    by (cases e) (simp_all add: checkout_check_def)
next
  case (Inr x)
  with assms show ?thesis by (simp add: checkout_check_def)
qed

lemma checkout_check_Inr:
  "checkout_check ops s d c = Inr x \<longleftrightarrow>
   checkout_loop ops (books d) c (float_of_int ops 0, []) = Inr x"
proof (cases "checkout_loop ops (books d) c (float_of_int ops 0, [])")
  case (Inl e)
  then show ?thesis by (cases e) (simp_all add: checkout_check_def)
next
  case (Inr y)
  then show ?thesis by (simp add: checkout_check_def)
qed

lemma checkout_write_cases:
  assumes "checkout_write ops oid form tot cart_items s d = (resp, s', d')"
  shows "(\<exists>e. resp = Crash e \<and> s' = s \<and> d' = d \<and>
            (oid \<in> o_order_id ` set (orders d) \<longrightarrow> e = IntegrityError)) \<or>
         (oid \<notin> o_order_id ` set (orders d) \<and> \<not> float_isnan ops tot \<and>
          resp = Render_order_confirmation oid tot \<and>
          s' = flash (Order_placed oid) (s\<lparr>cart := None\<rparr>) \<and>
          d' = placed_db ops oid form tot cart_items d)"
proof (cases "oid \<in> set (map o_order_id (orders d)) \<or> float_isnan ops tot")
  case True
  with assms have "resp = Crash IntegrityError" "s' = s" "d' = d"
    by (simp_all add: checkout_write_def)
  then show ?thesis by blast
next
  case False
  show ?thesis
  proof (cases "item_error ops cart_items")
    case None
    with False assms show ?thesis
      by (simp add: checkout_write_def placed_db_def Let_def)
  next
    case (Some e)
    with False assms have "resp = Crash e" "s' = s" "d' = d"
      by (simp_all add: checkout_write_def)
    with False show ?thesis by auto
  qed
qed

text \<open>The five ways a checkout \<^verbatim>\<open>POST\<close> ends.\<close>

lemma checkout_POST_cases:
  assumes "checkout ops POST r form s d = (resp, s', d')"
  obtains
    (empty) "cart s = None \<or> cart s = Some []" "resp = Redirect ''index''"
       "s' = flash Cart_empty s" "d' = d"
  | (absent) c where "cart s = Some c" "c \<noteq> []"
       "checkout_loop ops (books d) c (float_of_int ops 0, []) = Inl Absent_book"
       "resp = Crash TypeError" "s' = s" "d' = d"
  | (short) c title available where "cart s = Some c" "c \<noteq> []"
       "checkout_loop ops (books d) c (float_of_int ops 0, []) = Inl (Short_stock title available)"
       "resp = Redirect ''view_cart''" "s' = flash (Insufficient_stock title available) s" "d' = d"
  | (refused) c tot cart_items e where "cart s = Some c" "c \<noteq> []"
       "checkout_loop ops (books d) c (float_of_int ops 0, []) = Inr (tot, cart_items)"
       "resp = Crash e" "s' = s" "d' = d"
       "new_order_id r \<in> o_order_id ` set (orders d) \<longrightarrow> e = IntegrityError"
  | (placed) c tot cart_items where "cart s = Some c" "c \<noteq> []"
       "checkout_loop ops (books d) c (float_of_int ops 0, []) = Inr (tot, cart_items)"
       "new_order_id r \<notin> o_order_id ` set (orders d)" "\<not> float_isnan ops tot"
       "resp = Render_order_confirmation (new_order_id r) tot"
       "s' = flash (Order_placed (new_order_id r)) (s\<lparr>cart := None\<rparr>)"
       "d' = placed_db ops (new_order_id r) form tot cart_items d"
proof (cases "cart s")
  case None
  with assms have "resp = Redirect ''index''" "s' = flash Cart_empty s" "d' = d"
    by (simp_all add: checkout_def)
  with None show ?thesis by (intro empty) simp_all
next
  case (Some c)
  show ?thesis
  proof (cases "c = []")
    case True
    with Some assms have "resp = Redirect ''index''" "s' = flash Cart_empty s" "d' = d"
      by (simp_all add: checkout_def)
    with Some True show ?thesis by (intro empty) simp_all
  next
    case False
    show ?thesis
    proof (cases "checkout_check ops s d c")
      case (Inl a)
      obtain resp0 s0 where a: "a = (resp0, s0)" by (cases a)
      with Inl Some False assms have eq: "resp = resp0" "s' = s0" "d' = d"
        by (simp_all add: checkout_def)
      from checkout_check_Inl [OF Inl [unfolded a]] eq Some False show ?thesis
        by (elim disjE exE conjE) (rule absent, simp_all, rule short, simp_all)
    next
      case (Inr b)
      obtain tot cart_items where b: "b = (tot, cart_items)" by (cases b)
      from Inr b
      have loop: "checkout_loop ops (books d) c (float_of_int ops 0, []) = Inr (tot, cart_items)"
        by (simp add: checkout_check_Inr)
      from Inr b Some False assms
      have w: "checkout_write ops (new_order_id r) form tot cart_items s d = (resp, s', d')"
        by (simp add: checkout_def)
      from checkout_write_cases [OF w] show ?thesis
      proof (elim disjE exE conjE)
        fix e
        assume "resp = Crash e" "s' = s" "d' = d"
          "new_order_id r \<in> o_order_id ` set (orders d) \<longrightarrow> e = IntegrityError"
        with Some False loop show ?thesis by (intro refused)
      next
        assume "new_order_id r \<notin> o_order_id ` set (orders d)" "\<not> float_isnan ops tot"
          "resp = Render_order_confirmation (new_order_id r) tot"
          "s' = flash (Order_placed (new_order_id r)) (s\<lparr>cart := None\<rparr>)"
          "d' = placed_db ops (new_order_id r) form tot cart_items d"
        with Some False loop show ?thesis by (intro placed)
      qed
    qed
  qed
qed

text \<open>
  Whenever the cart holds a line that cannot be served, the checkout writes nothing: it
  ends in the redirect to the cart or in the \<^verbatim>\<open>TypeError\<close>, with the database as it was.
\<close>

lemma checkout_failing_line_writes_nothing:
  assumes "checkout ops POST r form s d = (resp, s', d')"
      and "cart s = Some c" and "list_ex (line_fails (books d)) c"
  shows "d' = d \<and> cart s' = cart s \<and> (resp = Redirect ''view_cart'' \<or> resp = Crash TypeError)"
proof -
  from assms(3) have ne: "c \<noteq> []" by auto
  from checkout_loop_fails [OF assms(3)]
  obtain e where e: "checkout_loop ops (books d) c (float_of_int ops 0, []) = Inl e"
    by blast
  from assms(1) show ?thesis
  proof (cases rule: checkout_POST_cases)
    case empty
    with assms(2) ne show ?thesis by simp
  next
    case (absent c')
    then show ?thesis by simp
  next
    case (short c' title available)
    then show ?thesis by (simp add: flash_def)
  next
    case (refused c' tot cart_items e')
    with assms(2) e show ?thesis by simp
  next
    case (placed c' tot cart_items)
    with assms(2) e show ?thesis by simp
  qed
qed

section \<open>Checkout: the order total\<close>

lemma sum_of_item_rows:
  "sum_of_lines ops (map (item_row oid) items) =
   foldl (\<lambda>acc it. float_add ops acc (line_total ops (ci_price it) (ci_quantity it)))
     (float_of_int ops 0) items"
  by (simp add: sum_of_lines_def foldl_map item_row_def)

lemma filter_item_rows: "filter (\<lambda>item. oi_order_id item = oid) (map (item_row oid) items) =
   map (item_row oid) items"
  by (induction items) (simp_all add: item_row_def)

lemma filter_unknown_order_id:
  assumes "oid \<notin> o_order_id ` set (orders d)"
      and "oi_order_id ` set (order_items d) \<subseteq> o_order_id ` set (orders d)"
  shows "filter (\<lambda>item. oi_order_id item = oid) (order_items d) = []"
  using assms by (auto simp: filter_empty_conv)

text \<open>
  C3. After a checkout that succeeds, exactly one order carries the new identifier, and its
  \<open>total_amount\<close> is the sum over its order items of unit price times quantity (added up in
  row order with the float operations of the checkout); every one of these items carries
  the price its book had in the database the checkout read. The second assumption is the
  foreign key of \<^verbatim>\<open>order_items.order_id\<close>: no item row without its order.
\<close>

theorem checkout_total_is_sum_of_lines:
  assumes "checkout ops POST r form s d = (Render_order_confirmation oid tot, s', d')"
      and "oi_order_id ` set (order_items d) \<subseteq> o_order_id ` set (orders d)"
  shows "map o_total_amount (filter (\<lambda>x. o_order_id x = oid) (orders d')) =
           [sum_of_lines ops (order_lines oid d')] \<and>
         tot = sum_of_lines ops (order_lines oid d') \<and>
         order_lines oid d' \<noteq> [] \<and>
         list_all (\<lambda>item. map_option b_price (fetch_book (books d) (oi_book_id item)) =
                           Some (oi_price item))
           (order_lines oid d')"
  using assms(1)
proof (cases rule: checkout_POST_cases)
  case (placed c tot' cart_items)
  then have oid: "oid = new_order_id r" and tot: "tot' = tot" by simp_all
  from checkout_loop_Inr [OF placed(3)] obtain new where
    new: "cart_items = new" "cart_lines new = c"
      "tot' = foldl (\<lambda>acc it. float_add ops acc (line_total ops (ci_price it) (ci_quantity it)))
                (float_of_int ops 0) new"
      "list_all (\<lambda>it. map_option b_price (fetch_book (books d) (ci_book_id it)) =
                        Some (ci_price it)) new"
    by auto
  have lines: "order_lines oid d' = map (item_row oid) cart_items"
    using placed(4) assms(2) oid
    by (simp add: order_lines_def placed(8) placed_db_order_items filter_item_rows
        filter_unknown_order_id)
  have sum: "sum_of_lines ops (order_lines oid d') = tot"
    using new(1,3) tot by (simp add: lines sum_of_item_rows)
  have "filter (\<lambda>x. o_order_id x = oid) (orders d) = []"
    using placed(4) oid by (force simp: filter_empty_conv)
  then have one: "map o_total_amount (filter (\<lambda>x. o_order_id x = oid) (orders d')) = [tot]"
    using oid tot by (simp add: placed(8) placed_db_orders new_order_def)
  have "cart_items \<noteq> []"
    using new(1,2) placed(2) by (auto simp: cart_lines_def)
  then have ne: "order_lines oid d' \<noteq> []" by (simp add: lines)
  have prices: "list_all (\<lambda>item. map_option b_price (fetch_book (books d) (oi_book_id item)) =
                           Some (oi_price item)) (order_lines oid d')"
    using new(1,4) by (simp add: lines list_all_iff item_row_def)
  from one sum ne prices show ?thesis by simp
qed simp_all

lemma two_books_checkout:
  "checkout exact POST rand_a alice (shopper [(2, 2), (1, 1)]) shop =
     (Render_order_confirmation ''196B7C81'' (Finite 39),
      \<lparr>cart = None, admin_id = None, flashes = [Order_placed ''196B7C81'']\<rparr>,
      placed_db exact ''196B7C81'' alice (Finite 39)
        [\<lparr>ci_book_id = 2, ci_quantity = 2, ci_price = Finite 12\<rparr>,
         \<lparr>ci_book_id = 1, ci_quantity = 1, ci_price = Finite 15\<rparr>] shop)"
  by code_simp

theorem checkout_total_is_sum_of_lines_witness:
  "checkout exact POST rand_a alice (shopper [(2, 2), (1, 1)]) shop =
     (Render_order_confirmation ''196B7C81'' (Finite 39),
      \<lparr>cart = None, admin_id = None, flashes = [Order_placed ''196B7C81'']\<rparr>,
      placed_db exact ''196B7C81'' alice (Finite 39)
        [\<lparr>ci_book_id = 2, ci_quantity = 2, ci_price = Finite 12\<rparr>,
         \<lparr>ci_book_id = 1, ci_quantity = 1, ci_price = Finite 15\<rparr>] shop) \<and>
   order_items shop = [] \<and>
   map o_total_amount
     (filter (\<lambda>x. o_order_id x = ''196B7C81'')
        (orders (placed_db exact ''196B7C81'' alice (Finite 39)
           [\<lparr>ci_book_id = 2, ci_quantity = 2, ci_price = Finite 12\<rparr>,
            \<lparr>ci_book_id = 1, ci_quantity = 1, ci_price = Finite 15\<rparr>] shop))) =
     [Finite 39] \<and>
   sum_of_lines exact
     (order_lines ''196B7C81''
        (placed_db exact ''196B7C81'' alice (Finite 39)
           [\<lparr>ci_book_id = 2, ci_quantity = 2, ci_price = Finite 12\<rparr>,
            \<lparr>ci_book_id = 1, ci_quantity = 1, ci_price = Finite 15\<rparr>] shop)) = Finite 39"
proof -
  have fk: "oi_order_id ` set (order_items shop) \<subseteq> o_order_id ` set (orders shop)"
    by (simp add: shop_def)
  have e: "order_items shop = []" by (simp add: shop_def)
  from checkout_total_is_sum_of_lines [OF two_books_checkout fk] two_books_checkout e
  show ?thesis by simp
qed

section \<open>Checkout: the cart\<close>

text \<open>
  C10. A checkout that ends in the redirect to the cart page (the insufficient-stock abort)
  leaves the cart and the database as they were. The cart changes in one case only: it is
  removed from the session, the response is the order confirmation, and the database is
  the one in which the order row, one item row per cart line and the stock updates have
  been written.
\<close>

theorem checkout_cart_kept_until_commit:
  assumes "checkout ops POST r form s d = (resp, s', d')"
  shows "(resp = Redirect ''view_cart'' \<longrightarrow> cart s' = cart s \<and> d' = d) \<and>
         (cart s' \<noteq> cart s \<longrightarrow>
            cart s' = None \<and>
            (\<exists>tot cart_items.
               resp = Render_order_confirmation (new_order_id r) tot \<and>
               cart s = Some (cart_lines cart_items) \<and>
               orders d' = orders d @ [new_order (new_order_id r) form tot] \<and>
               order_items d' = order_items d @ map (item_row (new_order_id r)) cart_items \<and>
               books d' =
                 foldl (\<lambda>bs item. decrement_stock (ci_book_id item) (ci_quantity item) bs)
                   (books d) cart_items))"
  using assms
proof (cases rule: checkout_POST_cases)
  case empty
  then show ?thesis by (simp add: flash_def)
next
  case (absent c)
  then show ?thesis by simp
next
  case (short c title available)
  then show ?thesis by (simp add: flash_def)
next
  case (refused c tot cart_items e)
  then show ?thesis by simp
next
  case (placed c tot cart_items)
  from checkout_loop_Inr [OF placed(3)] have "cart_lines cart_items = c" by auto
  with placed have
    "resp = Render_order_confirmation (new_order_id r) tot \<and>
     cart s = Some (cart_lines cart_items) \<and>
     orders d' = orders d @ [new_order (new_order_id r) form tot] \<and>
     order_items d' = order_items d @ map (item_row (new_order_id r)) cart_items \<and>
     books d' =
       foldl (\<lambda>bs item. decrement_stock (ci_book_id item) (ci_quantity item) bs)
         (books d) cart_items"
    by (simp add: placed_db_orders placed_db_order_items placed_db_books)
  then have "\<exists>tot cart_items.
     resp = Render_order_confirmation (new_order_id r) tot \<and>
     cart s = Some (cart_lines cart_items) \<and>
     orders d' = orders d @ [new_order (new_order_id r) form tot] \<and>
     order_items d' = order_items d @ map (item_row (new_order_id r)) cart_items \<and>
     books d' =
       foldl (\<lambda>bs item. decrement_stock (ci_book_id item) (ci_quantity item) bs)
         (books d) cart_items"
    by blast
  moreover have "cart s' = None" "resp \<noteq> Redirect ''view_cart''"
    using placed by (simp_all add: flash_def)
  ultimately show ?thesis by blast
qed

lemma short_cart_checkout:
  "checkout exact POST rand_a alice (shopper [(1, 5)]) shop =
     (Redirect ''view_cart'',
      \<lparr>cart = Some [(1, 5)], admin_id = None, flashes = [Insufficient_stock ''1984'' 1]\<rparr>,
      shop)"
  by code_simp

theorem checkout_cart_kept_until_commit_witness:
  "checkout exact POST rand_a alice (shopper [(1, 5)]) shop =
     (Redirect ''view_cart'',
      \<lparr>cart = Some [(1, 5)], admin_id = None, flashes = [Insufficient_stock ''1984'' 1]\<rparr>,
      shop) \<and>
   cart \<lparr>cart = Some [(1, 5)], admin_id = None, flashes = [Insufficient_stock ''1984'' 1]\<rparr> =
     cart (shopper [(1, 5)])"
  using checkout_cart_kept_until_commit [OF short_cart_checkout] short_cart_checkout
  by simp

section \<open>Checkout: a cart line whose book is gone\<close>

text \<open>
  C1. The cart names book 9, which the shop does not have. The first loop takes its
  \<^verbatim>\<open>else\<close> branch with \<^verbatim>\<open>book = None\<close> and fails while formatting the message: the request
  ends in \<^verbatim>\<open>TypeError\<close>, not in the insufficient-stock redirect. Nothing is written.
\<close>

theorem checkout_absent_book_type_error:
  "checkout exact POST rand_a alice (shopper [(9, 1)]) shop =
     (Crash TypeError, shopper [(9, 1)], shop)"
  by code_simp

text \<open>The same for every shop and cart: the first line that fails decides.\<close>

lemma checkout_loop_absent_first:
  assumes "fetch_book bs book_id = None"
  shows "checkout_loop ops bs ((book_id, quantity) # rest) st = Inl Absent_book"
  using assms by (cases st) simp

section \<open>Checkout: notifications\<close>

lemma checkout_GET_db: "checkout ops GET r form s d = (resp, s', d') \<Longrightarrow> d' = d"
  by (auto simp: checkout_def split: option.splits if_splits prod.splits)

text \<open>No checkout writes a notification of a type other than \<^verbatim>\<open>new_order\<close>.\<close>

lemma checkout_notification_types:
  assumes "checkout ops POST r form s d = (resp, s', d')"
  shows "map n_type (notifications d') = map n_type (notifications d) \<or>
         map n_type (notifications d') = map n_type (notifications d) @ [''new_order'']"
  using assms
  by (cases rule: checkout_POST_cases) (simp_all add: placed_db_notification_types)

text \<open>
  C5. Book 2 has threshold 5 and stock 6. A checkout of two copies succeeds and leaves
  stock 4, at or below the threshold. The one notification it writes is \<^verbatim>\<open>new_order\<close>;
  there is no \<^verbatim>\<open>low_stock\<close> notification.
\<close>

theorem sale_across_threshold_no_low_stock:
  "(case checkout exact POST rand_a alice (shopper [(2, 2)]) shop of
      (resp, s', d') \<Rightarrow>
        resp = Render_order_confirmation ''196B7C81'' (Finite 24) \<and>
        map b_stock (books shop) = [1, 6, 0] \<and>
        map b_stock (books d') = [1, 4, 0] \<and>
        map b_stock_threshold (books d') = [0, 5, 5] \<and>
        map n_type (notifications shop) = [''book_added'', ''book_added''] \<and>
        map n_type (notifications d') = [''book_added'', ''book_added'', ''new_order''])"
  by code_simp

text \<open>
  The admin's \<^verbatim>\<open>edit_book\<close> is where the alert is written: once, when the stock entered
  moves the book from above its threshold to at or below it.
\<close>

lemma edit_book_low_stock_alert:
  assumes "admin_id s \<noteq> None" and "fetch_book (books d) book_id = Some book"
      and "0 \<le> book_id" and "sqlite_int book_id"
      and "validate_book_form ops form = Inr (price, stock, stock_threshold)"
      and "edit_book ops POST book_id form s d = (resp, s', d')"
  shows "map n_type (notifications d') =
         map n_type (notifications d) @
           (if stock \<le> stock_threshold \<and> b_stock book > stock_threshold
            then [''low_stock''] else [])"
  using assms
  by (auto simp: edit_book_def Let_def add_notification_def update_book_def
      split: if_splits)

section \<open>The order identifier\<close>

lemma upper_hex_digit: "k < 16 \<Longrightarrow> upper_char (hex_digit k) \<in> upper_hex_digits"
proof -
  assume "k < 16"
  then have k: "k \<in> set [0..<16]" by simp
  have "\<forall>k \<in> set [0..<16]. upper_char (hex_digit k) \<in> set ''0123456789ABCDEF''"
    by code_simp
  with k show ?thesis unfolding upper_hex_digits_def by blast
qed

lemma hex_byte_upper: "set (str_upper (hex_byte b)) \<subseteq> upper_hex_digits"
proof -
  have "unat b div 16 < 16"
    using unsigned_less [of b, where ?'a = nat] by simp
  then show ?thesis
    by (simp add: hex_byte_def str_upper_def upper_hex_digit)
qed

lemma uuid_hex_upper: "set (str_upper (uuid_hex bs)) \<subseteq> upper_hex_digits"
proof (induction bs)
  case Nil
  then show ?case by (simp add: uuid_hex_def str_upper_def)
next
  case (Cons b bs)
  with hex_byte_upper [of b] show ?case
    by (simp add: uuid_hex_def str_upper_def)
qed

lemma length_uuid_hex: "length (uuid_hex bs) = 2 * length bs"
  by (induction bs) (simp_all add: uuid_hex_def hex_byte_def)

lemma new_order_id_take:
  assumes "length r = 16"
  shows "new_order_id r = take 8 (str_upper (uuid_hex (uuid4 r)))"
proof -
  have "length (uuid_hex (uuid4 r)) = 32"
    using assms by (simp add: length_uuid_hex uuid4_def)
  then show ?thesis
    by (simp add: new_order_id_def uuid_str_def Let_def str_upper_def take_map)
qed

lemma new_order_id_shape:
  assumes "length r = 16"
  shows "length (new_order_id r) = 8 \<and> set (new_order_id r) \<subseteq> upper_hex_digits"
proof -
  have "length (uuid_hex (uuid4 r)) = 32"
    using assms by (simp add: length_uuid_hex uuid4_def)
  then have "length (new_order_id r) = 8"
    using assms by (simp add: new_order_id_take str_upper_def)
  moreover have "set (new_order_id r) \<subseteq> upper_hex_digits"
    using uuid_hex_upper [of "uuid4 r"] set_take_subset [of 8 "str_upper (uuid_hex (uuid4 r))"]
    by (simp add: new_order_id_take assms)
  ultimately show ?thesis by simp
qed

lemma card_upper_hex_digits: "card upper_hex_digits = 16"
proof -
  have "distinct ''0123456789ABCDEF''" by simp
  then have "card (set ''0123456789ABCDEF'') = length ''0123456789ABCDEF''"
    by (rule distinct_card)
  then show ?thesis by (simp add: upper_hex_digits_def)
qed

lemma finite_upper_hex_digits: "finite upper_hex_digits"
  by (simp add: upper_hex_digits_def)

lemma order_id_space_sub:
  "order_id_space \<subseteq> {xs. set xs \<subseteq> upper_hex_digits \<and> length xs = 8}"
  using new_order_id_shape by (auto simp: order_id_space_def)

text \<open>Every string of eight upper-case hexadecimal digits can be drawn.\<close>

lemma upper_hex_digit_onto:
  assumes "c \<in> upper_hex_digits"
  shows "\<exists>k<16. upper_char (hex_digit k) = c"
proof -
  have "\<forall>c \<in> set ''0123456789ABCDEF''. \<exists>k \<in> set [0..<16]. upper_char (hex_digit k) = c"
    by code_simp
  with assms obtain k where "k \<in> set [0..<16]" "upper_char (hex_digit k) = c"
    unfolding upper_hex_digits_def by blast
  then show ?thesis by auto
qed

lemma unat_byte_of_nat:
  assumes "n < 256"
  shows "unat (of_nat n :: 8 word) = n"
  using assms by (simp add: unat_of_nat)

lemma hex_byte_of_digits:
  assumes "k1 < 16" and "k2 < 16"
  shows "str_upper (hex_byte (of_nat (16 * k1 + k2))) =
         [upper_char (hex_digit k1), upper_char (hex_digit k2)]"
proof -
  define n where "n = 16 * k1 + k2"
  have "n < 256" using assms by (simp add: n_def)
  then have u: "unat (of_nat n :: 8 word) = n" by (rule unat_byte_of_nat)
  have "n div 16 = k1" "n mod 16 = k2" using assms by (simp_all add: n_def)
  with u have "str_upper (hex_byte (of_nat n)) =
      [upper_char (hex_digit k1), upper_char (hex_digit k2)]"
    by (simp add: hex_byte_def str_upper_def)
  then show ?thesis by (simp only: n_def)
qed

lemma two_upper_hex_digits:
  assumes "c1 \<in> upper_hex_digits" and "c2 \<in> upper_hex_digits"
  shows "\<exists>b. str_upper (hex_byte b) = [c1, c2]"
proof -
  from upper_hex_digit_onto [OF assms(1)] obtain k1 where
    k1: "k1 < 16" "upper_char (hex_digit k1) = c1" by blast
  from upper_hex_digit_onto [OF assms(2)] obtain k2 where
    k2: "k2 < 16" "upper_char (hex_digit k2) = c2" by blast
  from hex_byte_of_digits [OF k1(1) k2(1)] k1(2) k2(2) show ?thesis by auto
qed

lemma new_order_id_of_four_bytes:
  "new_order_id [b0, b1, b2, b3, 0, 0, 0, 0, 0, 0, 0, 0, 0, 0, 0, 0] =
   str_upper (hex_byte b0) @ str_upper (hex_byte b1) @ str_upper (hex_byte b2) @
   str_upper (hex_byte b3)"
  by (simp add: new_order_id_def uuid_str_def uuid_hex_def uuid4_def Let_def str_upper_def
      hex_byte_def)

lemma order_id_space_onto:
  assumes "length xs = 8" and "set xs \<subseteq> upper_hex_digits"
  shows "xs \<in> order_id_space"
proof -
  from assms(1) obtain c0 c1 c2 c3 c4 c5 c6 c7 where
    xs: "xs = [c0, c1, c2, c3, c4, c5, c6, c7]"
    by (auto simp: length_Suc_conv eval_nat_numeral)
  with assms(2) have
    "c0 \<in> upper_hex_digits" "c1 \<in> upper_hex_digits" "c2 \<in> upper_hex_digits"
    "c3 \<in> upper_hex_digits" "c4 \<in> upper_hex_digits" "c5 \<in> upper_hex_digits"
    "c6 \<in> upper_hex_digits" "c7 \<in> upper_hex_digits"
    by simp_all
  then obtain b0 b1 b2 b3 where
    "str_upper (hex_byte b0) = [c0, c1]" "str_upper (hex_byte b1) = [c2, c3]"
    "str_upper (hex_byte b2) = [c4, c5]" "str_upper (hex_byte b3) = [c6, c7]"
    using two_upper_hex_digits by metis
  then have "new_order_id [b0, b1, b2, b3, 0, 0, 0, 0, 0, 0, 0, 0, 0, 0, 0, 0] = xs"
    by (simp only: new_order_id_of_four_bytes xs) simp
  moreover have "length [b0, b1, b2, b3, 0, 0, 0, 0, 0, 0, 0, 0, 0, 0, 0, (0::8 word)] = 16"
    by simp
  ultimately show ?thesis
    unfolding order_id_space_def by blast
qed

lemma order_id_space_eq:
  "order_id_space = {xs. set xs \<subseteq> upper_hex_digits \<and> length xs = 8}"
  using order_id_space_sub order_id_space_onto by blast

lemma card_order_id_space: "card order_id_space = 16 ^ 8"
  using card_lists_length_eq [OF finite_upper_hex_digits, of 8]
  by (simp only: order_id_space_eq card_upper_hex_digits)

lemma checkout_keeps_order_ids_distinct:
  assumes "checkout ops POST r form s d = (resp, s', d')"
      and "distinct (map o_order_id (orders d))"
  shows "distinct (map o_order_id (orders d'))"
  using assms(1)
proof (cases rule: checkout_POST_cases)
  case (placed c tot cart_items)
  with assms(2) show ?thesis
    by (simp add: placed_db_orders new_order_def)
qed (use assms(2) in simp_all)

text \<open>
  C6, as the code has it. The identifier is the first eight characters of the text of a
  version-4 UUID, in upper case: eight characters, each one of the sixteen hexadecimal
  digits \<^verbatim>\<open>0\<close>-\<^verbatim>\<open>9\<close>, \<^verbatim>\<open>A\<close>-\<^verbatim>\<open>F\<close>, and the identifiers that can be drawn are \<open>16 ^ 8\<close> in
  number. A checkout that answers with an order confirmation answers with this identifier,
  which no order carried before, and has written it into the new order row and into the
  item rows. That an identifier is not used twice is the work of the \<^verbatim>\<open>UNIQUE\<close> constraint:
  when the identifier drawn is already that of an order, the checkout writes nothing, and
  once its cart has passed the stock check it ends in \<^verbatim>\<open>IntegrityError\<close>; after any
  checkout the identifiers in \<^verbatim>\<open>orders\<close> are still pairwise distinct.
\<close>

theorem order_id_eight_upper_hex_digits:
  assumes "length r = 16"
      and "checkout ops POST r form s d = (resp, s', d')"
      and "distinct (map o_order_id (orders d))"
  shows "length (new_order_id r) = 8 \<and> set (new_order_id r) \<subseteq> upper_hex_digits \<and>
         card upper_hex_digits = 16 \<and> card order_id_space = 16 ^ 8 \<and>
         (\<forall>oid tot. resp = Render_order_confirmation oid tot \<longrightarrow>
            oid = new_order_id r \<and> new_order_id r \<notin> o_order_id ` set (orders d) \<and>
            orders d' = orders d @ [new_order (new_order_id r) form tot] \<and>
            (\<exists>cart_items. cart s = Some (cart_lines cart_items) \<and>
               order_items d' =
                 order_items d @ map (item_row (new_order_id r)) cart_items)) \<and>
         (d' \<noteq> d \<longrightarrow> (\<exists>tot. resp = Render_order_confirmation (new_order_id r) tot)) \<and>
         (new_order_id r \<in> o_order_id ` set (orders d) \<longrightarrow>
            d' = d \<and> cart s' = cart s \<and>
            (\<forall>oid tot. resp \<noteq> Render_order_confirmation oid tot) \<and>
            (\<forall>c checked. cart s = Some c \<and> c \<noteq> [] \<and> checkout_check ops s d c = Inr checked \<longrightarrow>
               resp = Crash IntegrityError \<and> s' = s)) \<and>
         distinct (map o_order_id (orders d'))"
proof -
  note shape = new_order_id_shape [OF assms(1)]
  note dist = checkout_keeps_order_ids_distinct [OF assms(2,3)]
  have written: "(\<forall>oid tot. resp = Render_order_confirmation oid tot \<longrightarrow>
            oid = new_order_id r \<and> new_order_id r \<notin> o_order_id ` set (orders d) \<and>
            orders d' = orders d @ [new_order (new_order_id r) form tot] \<and>
            (\<exists>cart_items. cart s = Some (cart_lines cart_items) \<and>
               order_items d' =
                 order_items d @ map (item_row (new_order_id r)) cart_items)) \<and>
         (d' \<noteq> d \<longrightarrow> (\<exists>tot. resp = Render_order_confirmation (new_order_id r) tot)) \<and>
         (new_order_id r \<in> o_order_id ` set (orders d) \<longrightarrow>
            d' = d \<and> cart s' = cart s \<and>
            (\<forall>oid tot. resp \<noteq> Render_order_confirmation oid tot) \<and>
            (\<forall>c checked. cart s = Some c \<and> c \<noteq> [] \<and> checkout_check ops s d c = Inr checked \<longrightarrow>
               resp = Crash IntegrityError \<and> s' = s))"
    using assms(2)
  proof (cases rule: checkout_POST_cases)
    case empty
    then show ?thesis by (auto simp: flash_def)
  next
    case (absent c)
    then show ?thesis by (simp add: checkout_check_Inr)
  next
    case (short c title available)
    then show ?thesis by (simp add: checkout_check_Inr flash_def)
  next
    case (refused c tot cart_items e)
    then show ?thesis by simp
  next
    case (placed c tot cart_items)
    from checkout_loop_Inr [OF placed(3)] have "cart_lines cart_items = c" by auto
    with placed(1) have
      "cart s = Some (cart_lines cart_items) \<and>
       order_items d' = order_items d @ map (item_row (new_order_id r)) cart_items"
      by (simp add: placed(8) placed_db_order_items)
    then have "\<exists>cart_items. cart s = Some (cart_lines cart_items) \<and>
       order_items d' = order_items d @ map (item_row (new_order_id r)) cart_items"
      by blast
    with placed show ?thesis by (simp add: placed_db_orders)
  qed
  show ?thesis
    by (intro conjI shape [THEN conjunct1] shape [THEN conjunct2] card_upper_hex_digits
      card_order_id_space written [THEN conjunct1] written [THEN conjunct2, THEN conjunct1]
      written [THEN conjunct2, THEN conjunct2] dist)
qed

lemma length_rand_a: "length rand_a = 16"
  by (simp add: rand_a_def)

lemma one_book_checkout:
  "checkout exact POST rand_a alice (shopper [(2, 2)]) shop =
     (Render_order_confirmation ''196B7C81'' (Finite 24),
      \<lparr>cart = None, admin_id = None, flashes = [Order_placed ''196B7C81'']\<rparr>,
      placed_db exact ''196B7C81'' alice (Finite 24)
        [\<lparr>ci_book_id = 2, ci_quantity = 2, ci_price = Finite 12\<rparr>] shop)"
  by code_simp

lemma new_order_id_rand_a: "new_order_id rand_a = ''196B7C81''"
  by code_simp

lemma same_id_checkout:
  "checkout exact POST rand_a bob (shopper [(1, 1)]) busy_shop =
     (Crash IntegrityError, shopper [(1, 1)], busy_shop)"
  by code_simp

theorem order_id_eight_upper_hex_digits_witness:
  "length rand_a = 16 \<and> new_order_id rand_a = ''196B7C81'' \<and>
   length (new_order_id rand_a) = 8 \<and> set (new_order_id rand_a) \<subseteq> upper_hex_digits \<and>
   checkout exact POST rand_a alice (shopper [(2, 2)]) shop =
     (Render_order_confirmation ''196B7C81'' (Finite 24),
      \<lparr>cart = None, admin_id = None, flashes = [Order_placed ''196B7C81'']\<rparr>,
      placed_db exact ''196B7C81'' alice (Finite 24)
        [\<lparr>ci_book_id = 2, ci_quantity = 2, ci_price = Finite 12\<rparr>] shop) \<and>
   orders (placed_db exact ''196B7C81'' alice (Finite 24)
        [\<lparr>ci_book_id = 2, ci_quantity = 2, ci_price = Finite 12\<rparr>] shop) =
     orders shop @ [new_order (new_order_id rand_a) alice (Finite 24)] \<and>
   distinct (map o_order_id
     (orders (placed_db exact ''196B7C81'' alice (Finite 24)
        [\<lparr>ci_book_id = 2, ci_quantity = 2, ci_price = Finite 12\<rparr>] shop))) \<and>
   map o_order_id (orders busy_shop) = [new_order_id rand_a] \<and>
   checkout exact POST rand_a bob (shopper [(1, 1)]) busy_shop =
     (Crash IntegrityError, shopper [(1, 1)], busy_shop)"
proof -
  let ?d = "placed_db exact ''196B7C81'' alice (Finite 24)
              [\<lparr>ci_book_id = 2, ci_quantity = 2, ci_price = Finite 12\<rparr>] shop"
  have d: "distinct (map o_order_id (orders shop))" by (simp add: shop_def)
  have b: "map o_order_id (orders busy_shop) = [new_order_id rand_a]"
    by (simp add: busy_shop_def new_order_def new_order_id_rand_a)
  note t = order_id_eight_upper_hex_digits [OF length_rand_a one_book_checkout d]
  note written = t [THEN conjunct2, THEN conjunct2, THEN conjunct2, THEN conjunct2,
    THEN conjunct1, rule_format, OF refl]
  have 1: "length (new_order_id rand_a) = 8"
    by (rule t [THEN conjunct1])
  have 2: "set (new_order_id rand_a) \<subseteq> upper_hex_digits"
    by (rule t [THEN conjunct2, THEN conjunct1])
  have 3: "orders ?d = orders shop @ [new_order (new_order_id rand_a) alice (Finite 24)]"
    by (rule written [THEN conjunct2, THEN conjunct2, THEN conjunct1])
  have 4: "distinct (map o_order_id (orders ?d))"
    by (rule t [THEN conjunct2, THEN conjunct2, THEN conjunct2, THEN conjunct2,
      THEN conjunct2, THEN conjunct2, THEN conjunct2])
  from length_rand_a new_order_id_rand_a 1 2 one_book_checkout 3 4 b same_id_checkout
  show ?thesis by (intro conjI)
qed

text \<open>
  The claim asks for a space of at least \<open>36 ^ 8\<close> identifiers. The identifiers the code can
  draw are fewer.
\<close>

theorem order_id_space_below_claim: "\<not> 36 ^ 8 \<le> card order_id_space"
proof -
  have "(16::nat) ^ 8 < 36 ^ 8" by simp
  then show ?thesis by (simp only: card_order_id_space not_le)
qed

section \<open>Showing the cart\<close>

lemma view_cart_loop_sold_out:
  assumes "list_ex (line_sold_out bs) c"
  shows "fst (view_cart_loop ops bs c st) = Some RuntimeError"
  using assms
proof (induction c arbitrary: st)
  case Nil
  then show ?case by simp
next
  case (Cons line c)
  obtain book_id quantity where line: "line = (book_id, quantity)" by (cases line)
  obtain s cart_items tot where st: "st = (s, cart_items, tot)" by (cases st)
  show ?case
  proof (cases "line_sold_out bs line")
    case True
    with line st show ?thesis
      by (auto simp: line_sold_out_def Let_def split: option.splits)
  next
    case False
    with Cons.prems have rest: "list_ex (line_sold_out bs) c" by simp
    show ?thesis
      using Cons.IH [OF rest] line st
      by (auto simp: Let_def split: option.splits)
  qed
qed

text \<open>
  Whenever the cart holds a line whose book has run out, \<^verbatim>\<open>view_cart\<close> renders no page:
  the request ends in \<^verbatim>\<open>RuntimeError\<close>.
\<close>

lemma view_cart_sold_out_crashes:
  assumes "cart s = Some c" and "list_ex (line_sold_out (books d)) c"
  shows "fst (view_cart ops s d) = Crash RuntimeError"
proof -
  from assms(2) have ne: "c \<noteq> []" by auto
  obtain e s' items tot where
    r: "view_cart_loop ops (books d) c (s, [], float_of_int ops 0) = (e, s', items, tot)"
    by (metis prod_cases4)
  with view_cart_loop_sold_out [OF assms(2), of ops "(s, [], float_of_int ops 0)"]
  have "e = Some RuntimeError" by simp
  with r assms(1) ne show ?thesis by (simp add: view_cart_def)
qed

text \<open>
  C8. The cart asks for two copies of book 3, which has stock 0. The line is deleted from
  the dict the loop is iterating over and the warning is flashed; the iterator then raises
  \<^verbatim>\<open>RuntimeError\<close>, so that no cart page, and with it no warning, is returned.
\<close>

theorem view_cart_zero_stock_runtime_error:
  "view_cart exact (shopper [(3, 2)]) shop =
     (Crash RuntimeError,
      \<lparr>cart = Some [], admin_id = None, flashes = [Out_of_stock_removed ''Ulysses'']\<rparr>,
      shop)"
  by code_simp

text \<open>
  What the rest of the claim says holds where no line is deleted: a quantity above a
  positive stock is set to the stock, with a warning, and a line within stock is shown
  with price times quantity. app.py's \<^verbatim>\<open>view_cart\<close> checks nothing.
\<close>

lemma view_cart_clamps:
  "view_cart exact (shopper [(2, 9), (1, 1)]) shop =
     (Render_cart [(books shop ! 1, 6, Finite 72), (books shop ! 0, 1, Finite 15)] (Finite 87),
      \<lparr>cart = Some [(2, 6), (1, 1)], admin_id = None, flashes = [Quantity_adjusted ''Emma'']\<rparr>,
      shop)"
  by code_simp

lemma app_view_cart_does_not_clamp:
  "app_view_cart exact (shopper [(2, 9), (3, 2)]) shop =
     (Render_cart [(books shop ! 1, 9, Finite 108), (books shop ! 2, 2, Finite 40)] (Finite 148),
      shopper [(2, 9), (3, 2)], shop)"
  by code_simp

section \<open>Two checkouts at once\<close>

text \<open>A request that takes both its steps with no other in between is \<open>checkout\<close>.\<close>

lemma run_alone_is_checkout:
  "run_schedule ops [0, 0] ([Arrived form r s], d) =
     (case checkout ops POST r form s d of (resp, s', d') \<Rightarrow> ([Answered resp s'], d'))"
  by (auto simp: checkout_def split: option.splits sum.splits prod.splits)

text \<open>
  C2. Book 1 has stock 1. Alice and Bob each check out one copy. Both requests run their
  first loop before either writes: both read stock 1 and pass. Both then write. Both get
  their order confirmation, and the stock of book 1 is \<open>- 1\<close>. The update the code runs,
  \<open>decrement_stock\<close>, has no condition on the stock.
\<close>

theorem concurrent_checkouts_oversell:
  "(case run_schedule exact [0, 1, 0, 1]
           ([Arrived alice rand_a (shopper [(1, 1)]), Arrived bob rand_b (shopper [(1, 1)])],
            shop) of
      (ps, d) \<Rightarrow>
        ps = [Answered (Render_order_confirmation ''196B7C81'' (Finite 15))
                \<lparr>cart = None, admin_id = None, flashes = [Order_placed ''196B7C81'']\<rparr>,
              Answered (Render_order_confirmation ''2F005DE4'' (Finite 15))
                \<lparr>cart = None, admin_id = None, flashes = [Order_placed ''2F005DE4'']\<rparr>] \<and>
        map b_stock (books shop) = [1, 6, 0] \<and>
        map b_stock (books d) = [- 1, 6, 0] \<and>
        map o_order_id (orders d) = [''196B7C81'', ''2F005DE4''])"
  by code_simp

text \<open>One after the other, the second is turned away and the stock stays at 0.\<close>

lemma checkouts_in_turn:
  "(case run_schedule exact [0, 0, 1, 1]
           ([Arrived alice rand_a (shopper [(1, 1)]), Arrived bob rand_b (shopper [(1, 1)])],
            shop) of
      (ps, d) \<Rightarrow>
        ps = [Answered (Render_order_confirmation ''196B7C81'' (Finite 15))
                \<lparr>cart = None, admin_id = None, flashes = [Order_placed ''196B7C81'']\<rparr>,
              Answered (Redirect ''view_cart'')
                \<lparr>cart = Some [(1, 1)], admin_id = None,
                  flashes = [Insufficient_stock ''1984'' 0]\<rparr>] \<and>
        map b_stock (books d) = [0, 6, 0])"
  by code_simp

lemma decrement_stock_unconditional:
  "decrement_stock 1 1 [\<lparr>b_id = 1, b_title = t, b_author = a, b_description = ds,
      b_price = p, b_stock = 0, b_genre = g, b_image_filename = None,
      b_stock_threshold = 5\<rparr>] =
   [\<lparr>b_id = 1, b_title = t, b_author = a, b_description = ds,
      b_price = p, b_stock = - 1, b_genre = g, b_image_filename = None,
      b_stock_threshold = 5\<rparr>]"
  by (simp add: decrement_stock_def)

section \<open>Adding a book\<close>

text \<open>
  What \<^verbatim>\<open>add_book\<close> of admin/routes.py does for the five names it lists, in any case and
  with blanks around them: the form comes back with the message, before \<^verbatim>\<open>float\<close> is
  called (the builtins are arbitrary), and the database is as it was.
\<close>

lemma add_book_listed_name_rejected:
  assumes "admin_id s \<noteq> None"
      and "str_lower (str_strip (bf_price form)) \<in> set non_finite_names"
  shows "add_book ops POST form s d = (Render_add_book, flash Invalid_price s, d)"
  using assms by (simp add: add_book_def validate_book_form_def)

lemma add_book_nan_rejected:
  "add_book exact POST (book_with_price '' NaN '') admin_session shop =
     (Render_add_book, flash Invalid_price admin_session, shop)"
  by code_simp

text \<open>
  C4. Two requests the code accepts. \<^verbatim>\<open>admin_add_book\<close> of app.py checks nothing: the price
  \<^verbatim>\<open>inf\<close> is parsed and the row is inserted with an infinite price. \<^verbatim>\<open>add_book\<close> of
  admin/routes.py compares the price with its five names only: \<^verbatim>\<open>+inf\<close> is none of them,
  \<^verbatim>\<open>float\<close> parses it to infinity, which is not below zero, and the row is inserted.
\<close>

theorem add_book_inserts_infinite_price:
  "(case admin_add_book exact POST (book_with_price ''inf'') admin_session shop of
      (resp, s', d') \<Rightarrow>
        resp = Redirect ''admin_books'' \<and>
        map b_price (books d') = [Finite 15, Finite 12, Finite 20, PosInf]) \<and>
   (case add_book exact POST (book_with_price ''+inf'') admin_session shop of
      (resp, s', d') \<Rightarrow>
        resp = Redirect ''admin.books'' \<and>
        map b_price (books d') = [Finite 15, Finite 12, Finite 20, PosInf])"
  by code_simp

text \<open>
  \<^verbatim>\<open>nan\<close> with a sign is not among the five names either. It is parsed, is not below
  zero, and the insert fails on \<^verbatim>\<open>price REAL NOT NULL\<close>: no row, and no message either.
\<close>

lemma add_book_signed_nan:
  "add_book exact POST (book_with_price ''-nan'') admin_session shop =
     (Crash IntegrityError, admin_session, shop)"
  by code_simp

section \<open>One checkout at a time\<close>

text \<open>
  With no other request between its reads and its writes, a checkout whose cart has at
  most one line per book keeps every stock at or above zero. \<^verbatim>\<open>books.id\<close> is the primary
  key. The hypothesis \<open>distinct (map fst c)\<close> is on the book ids, not on the key texts of the
  session: a cart of the code with the keys \<^verbatim>\<open>1\<close> and \<^verbatim>\<open>01\<close> has two lines on book 1,
  each checked against the same stock and both subtracted, and is outside this lemma.
\<close>

lemma b_id_decrement_stock [simp]:
  "map b_id (decrement_stock book_id quantity bs) = map b_id bs"
  by (induction bs) (simp_all add: decrement_stock_def)

lemma fetch_book_decrement_other:
  assumes "i \<noteq> book_id"
  shows "fetch_book (decrement_stock book_id quantity bs) i = fetch_book bs i"
  using assms by (induction bs) (simp_all add: decrement_stock_def fetch_book_def)

lemma line_fails_decrement_other:
  assumes "fst line \<noteq> book_id"
  shows "line_fails (decrement_stock book_id quantity bs) line = line_fails bs line"
  using assms by (simp add: line_fails_def fetch_book_decrement_other)

lemma fetch_book_unique:
  assumes "fetch_book bs i = Some book" and "distinct (map b_id bs)"
      and "b \<in> set bs" and "b_id b = i"
  shows "b = book"
proof -
  from assms(1) have "book \<in> set bs" "b_id book = i"
    by (auto simp: fetch_book_def find_Some_iff)
  moreover from assms(2) have "inj_on b_id (set bs)"
    by (simp add: distinct_map)
  ultimately show ?thesis using assms(3,4) by (auto dest: inj_onD)
qed

lemma decrement_stock_nonneg:
  assumes "fetch_book bs book_id = Some book" and "quantity \<le> b_stock book"
      and "distinct (map b_id bs)" and "\<forall>b \<in> set bs. 0 \<le> b_stock b"
  shows "\<forall>b \<in> set (decrement_stock book_id quantity bs). 0 \<le> b_stock b"
proof
  fix b' assume "b' \<in> set (decrement_stock book_id quantity bs)"
  then obtain b where b: "b \<in> set bs"
    "b' = (if b_id b = book_id then b\<lparr>b_stock := b_stock b - quantity\<rparr> else b)"
    by (auto simp: decrement_stock_def)
  show "0 \<le> b_stock b'"
  proof (cases "b_id b = book_id")
    case True
    with fetch_book_unique [OF assms(1,3) b(1)] have "b = book" by simp
    with True b(2) assms(2) show ?thesis by simp
  next
    case False
    with b assms(4) show ?thesis by simp
  qed
qed

lemma decrements_nonneg:
  assumes "distinct (map fst c)" and "distinct (map b_id bs)"
      and "\<not> list_ex (line_fails bs) c" and "\<forall>b \<in> set bs. 0 \<le> b_stock b"
  shows "\<forall>b \<in> set (foldl (\<lambda>bs line. decrement_stock (fst line) (snd line) bs) bs c).
           0 \<le> b_stock b"
  using assms
proof (induction c arbitrary: bs)
  case Nil
  then show ?case by simp
next
  case (Cons line c)
  from Cons.prems(3) obtain book where
    book: "fetch_book bs (fst line) = Some book" "snd line \<le> b_stock book"
    by (auto simp: line_fails_def split: option.splits)
  let ?bs = "decrement_stock (fst line) (snd line) bs"
  have 1: "distinct (map fst c)" using Cons.prems(1) by simp
  have 2: "distinct (map b_id ?bs)" using Cons.prems(2) by simp
  have "fst line \<notin> fst ` set c" using Cons.prems(1) by simp
  then have "\<forall>l \<in> set c. fst l \<noteq> fst line" by (metis imageI)
  then have "\<forall>l \<in> set c. line_fails ?bs l = line_fails bs l"
    by (simp add: line_fails_decrement_other)
  with Cons.prems(3) have 3: "\<not> list_ex (line_fails ?bs) c"
    by (simp add: list_ex_iff)
  have 4: "\<forall>b \<in> set ?bs. 0 \<le> b_stock b"
    by (rule decrement_stock_nonneg [OF book Cons.prems(2,4)])
  from Cons.IH [OF 1 2 3 4] show ?case by simp
qed

lemma checkout_alone_keeps_stock_nonneg:
  assumes "checkout ops POST r form s d = (resp, s', d')"
      and "cart s = Some c" and "distinct (map fst c)"
      and "distinct (map b_id (books d))" and "\<forall>b \<in> set (books d). 0 \<le> b_stock b"
  shows "\<forall>b \<in> set (books d'). 0 \<le> b_stock b"
  using assms(1)
proof (cases rule: checkout_POST_cases)
  case (placed c' tot cart_items)
  with assms(2) have c: "c' = c" by simp
  from checkout_loop_Inr [OF placed(3)] have lines: "cart_lines cart_items = c" by (auto simp: c)
  have ok: "\<not> list_ex (line_fails (books d)) c"
    using checkout_loop_fails [of "books d" c ops "(float_of_int ops 0, [])"] placed(3) c
    by auto
  have "books d' =
        foldl (\<lambda>bs line. decrement_stock (fst line) (snd line) bs) (books d)
          (cart_lines cart_items)"
    by (simp add: placed(8) placed_db_books cart_lines_def foldl_map)
  with decrements_nonneg [OF assms(3,4) ok assms(5)] lines show ?thesis by simp
qed (use assms(5) in simp_all)

end
